theory Spec2Isabelle
  imports Main "HOL-Library.Word"
begin

section \<open>Errors\<close>

text \<open>
  The Go code reports failure through values of type \<open>error\<close>. The sentinels
  \<open>ErrNotFound\<close> and \<open>ErrUnknownVersion\<close> are package variables of the client;
  \<open>fmt.Errorf\<close> builds an error from a format string and its arguments;
  \<open>errors.Wrap\<close> (github.com/pkg/errors) puts a message around a cause. \<open>EOF\<close> and
  \<open>ShortWrite\<close> are the failures of the reader and the writer below the SCALE decoder and
  encoder, \<open>External\<close> is any other failure of an external collaborator (RPC, metadata,
  the reflection codec of the SCALE library).
\<close>

datatype error =
    ErrNotFound
  | ErrUnknownVersion
  | Errorf string "8 word list"
  | Wrap error string
  | EOF
  | ShortWrite
  | External string

text \<open>\<open>errors.Cause\<close>: the innermost error under the wrapping messages.\<close>

fun Cause :: "error \<Rightarrow> error" where
  "Cause (Wrap err msg) = Cause err"
| "Cause err = err"

section \<open>The SCALE decoder and encoder\<close>

type_synonym byte = "8 word"
type_synonym U32 = "32 word"
type_synonym U64 = "64 word"

text \<open>
  A \<open>scale.Decoder\<close> reads from an \<open>io.Reader\<close>; its state is the input that is left.
  \<open>ReadOneByte\<close> fails at the end of the input.
\<close>

type_synonym Decoder = "byte list"

definition ReadOneByte :: "Decoder \<Rightarrow> error + byte \<times> Decoder" where
  "ReadOneByte decoder = (case decoder of [] \<Rightarrow> Inl EOF | b # rest \<Rightarrow> Inr (b, rest))"

text \<open>
  A \<open>scale.Encoder\<close> writes to an \<open>io.Writer\<close>, which may refuse a byte. The state
  is what has been written and how many more bytes the writer takes (\<open>None\<close>: a
  buffer that never fails).
\<close>

record Encoder =
  written :: "byte list"
  room :: "nat option"

definition NewEncoder :: Encoder where
  "NewEncoder = \<lparr>written = [], room = None\<rparr>"

definition PushByte :: "Encoder \<Rightarrow> byte \<Rightarrow> error option \<times> Encoder" where
  "PushByte encoder b =
     (case room encoder of
        None \<Rightarrow> (None, encoder\<lparr>written := written encoder @ [b]\<rparr>)
      | Some 0 \<Rightarrow> (Some ShortWrite, encoder)
      | Some (Suc n) \<Rightarrow> (None, encoder\<lparr>written := written encoder @ [b], room := Some n\<rparr>))"

text \<open>Writing the bytes of an encoded payload, one after the other, up to the first failure.\<close>

fun PushBytes :: "Encoder \<Rightarrow> byte list \<Rightarrow> error option \<times> Encoder" where
  "PushBytes encoder [] = (None, encoder)"
| "PushBytes encoder (b # bs) =
     (case PushByte encoder b of
        (Some err, encoder') \<Rightarrow> (Some err, encoder')
      | (None, encoder') \<Rightarrow> PushBytes encoder' bs)"

section \<open>Tagged variants of farm.go and of the node file\<close>

text \<open>
  Every enum of the chain is a Go struct with one boolean per alternative. \<open>Decode\<close>
  has a pointer receiver and sets a field of the value it is given; the model takes that
  value and returns the updated one. Where \<open>Decode\<close> returns an error every caller
  drops the receiver, so the model returns the error alone.
\<close>

record NodeCertification =
  IsDiy :: bool
  IsCertified :: bool

definition NodeCertification_Decode ::
  "NodeCertification \<Rightarrow> Decoder \<Rightarrow> error + NodeCertification \<times> Decoder" where
  "NodeCertification_Decode p decoder =
     (case ReadOneByte decoder of
        Inl err \<Rightarrow> Inl err
      | Inr (b, decoder') \<Rightarrow>
          if b = 0 then Inr (p\<lparr>IsDiy := True\<rparr>, decoder')
          else if b = 1 then Inr (p\<lparr>IsCertified := True\<rparr>, decoder')
          else Inl (Errorf ''unknown NodeCertification value %d'' [b]))"

definition NodeCertification_Encode ::
  "NodeCertification \<Rightarrow> Encoder \<Rightarrow> error option \<times> Encoder" where
  "NodeCertification_Encode p encoder =
     (if IsDiy p then PushByte encoder 0
      else if IsCertified p then PushByte encoder 1
      else (None, encoder))"

record FarmCertification =
  isNotCertified :: bool
  isGold :: bool

definition FarmCertification_Decode ::
  "FarmCertification \<Rightarrow> Decoder \<Rightarrow> error + FarmCertification \<times> Decoder" where
  "FarmCertification_Decode p decoder =
     (case ReadOneByte decoder of
        Inl err \<Rightarrow> Inl err
      | Inr (b, decoder') \<Rightarrow>
          if b = 0 then Inr (p\<lparr>isNotCertified := True\<rparr>, decoder')
          else if b = 1 then Inr (p\<lparr>isGold := True\<rparr>, decoder')
          else Inl (Errorf ''unknown FarmCertification value'' []))"

definition FarmCertification_Encode ::
  "FarmCertification \<Rightarrow> Encoder \<Rightarrow> error option \<times> Encoder" where
  "FarmCertification_Encode p encoder =
     (if isNotCertified p then PushByte encoder 0
      else if isGold p then PushByte encoder 1
      else (None, encoder))"

record Role =
  IsNode :: bool
  IsGateway :: bool

definition Role_Decode :: "Role \<Rightarrow> Decoder \<Rightarrow> error + Role \<times> Decoder" where
  "Role_Decode r decoder =
     (case ReadOneByte decoder of
        Inl err \<Rightarrow> Inl err
      | Inr (b, decoder') \<Rightarrow>
          if b = 0 then Inr (r\<lparr>IsNode := True\<rparr>, decoder')
          else if b = 1 then Inr (r\<lparr>IsGateway := True\<rparr>, decoder')
          else Inl (Errorf ''unknown CertificateType value'' []))"

definition Role_Encode :: "Role \<Rightarrow> Encoder \<Rightarrow> error option \<times> Encoder" where
  "Role_Encode r encoder =
     (if IsNode r then PushByte encoder 0
      else if IsGateway r then PushByte encoder 1
      else (None, encoder))"

section \<open>Tagged variants of the contract file\<close>

record DeletedState =
  IsCanceledByUser :: bool
  IsOutOfFunds :: bool

text \<open>
  The switch has a \<open>case 2:\<close> with an empty body in front of \<open>default:\<close>. A Go case
  does not fall through, so byte 2 is accepted and sets no field.
\<close>

definition DeletedState_Decode ::
  "DeletedState \<Rightarrow> Decoder \<Rightarrow> error + DeletedState \<times> Decoder" where
  "DeletedState_Decode r decoder =
     (case ReadOneByte decoder of
        Inl err \<Rightarrow> Inl err
      | Inr (b, decoder') \<Rightarrow>
          if b = 0 then Inr (r\<lparr>IsCanceledByUser := True\<rparr>, decoder')
          else if b = 1 then Inr (r\<lparr>IsOutOfFunds := True\<rparr>, decoder')
          else if b = 2 then Inr (r, decoder')
          else Inl (Errorf ''unknown deleted state value'' []))"

definition DeletedState_Encode :: "DeletedState \<Rightarrow> Encoder \<Rightarrow> error option \<times> Encoder" where
  "DeletedState_Encode r encoder =
     (if IsCanceledByUser r then PushByte encoder 0
      else if IsOutOfFunds r then PushByte encoder 1
      else (None, encoder))"

record PublicIP =
  IP :: string
  Gateway :: string
  ContractID :: U64

record NodeContract =
  Node :: U32
  DeploymentData :: "byte list"
  DeploymentHash :: string
  PublicIPsCount :: U32
  PublicIPs :: "PublicIP list"

record NameContract =
  Name :: string

record RentContract =
  Node :: U32

text \<open>
  \<open>types.U64\<close> and the three contract structs have no \<open>Encode\<close> or \<open>Decode\<close> of
  their own in the client: \<open>encoder.Encode\<close> and \<open>decoder.Decode\<close> hand them to the
  SCALE library (fixed-width integers, and reflection over the fields of a struct). That
  library is an external collaborator; its codec for each payload type is a parameter:
  the bytes of a value, and the reading of a value from the front of the input. A Go
  \<open>nil\<close> slice and an empty one are both the empty list here.
\<close>

record ScaleLib =
  Encode_U64 :: "U64 \<Rightarrow> byte list"
  Decode_U64 :: "Decoder \<Rightarrow> error + U64 \<times> Decoder"
  Encode_NodeContract :: "NodeContract \<Rightarrow> byte list"
  Decode_NodeContract :: "Decoder \<Rightarrow> error + NodeContract \<times> Decoder"
  Encode_NameContract :: "NameContract \<Rightarrow> byte list"
  Decode_NameContract :: "Decoder \<Rightarrow> error + NameContract \<times> Decoder"
  Encode_RentContract :: "RentContract \<Rightarrow> byte list"
  Decode_RentContract :: "Decoder \<Rightarrow> error + RentContract \<times> Decoder"

record ContractState =
  IsCreated :: bool
  IsDeleted :: bool
  AsDeleted :: DeletedState
  IsGracePeriod :: bool
  AsGracePeriodBlockNumber :: U64

definition ContractState_Decode ::
  "ScaleLib \<Rightarrow> ContractState \<Rightarrow> Decoder \<Rightarrow> error + ContractState \<times> Decoder" where
  "ContractState_Decode L r decoder =
     (case ReadOneByte decoder of
        Inl err \<Rightarrow> Inl err
      | Inr (b, decoder') \<Rightarrow>
          if b = 0 then Inr (r\<lparr>IsCreated := True\<rparr>, decoder')
          else if b = 1 then
            (case DeletedState_Decode (AsDeleted r) decoder' of
               Inl err \<Rightarrow> Inl (Wrap err ''failed to get deleted state'')
             | Inr (d, decoder'') \<Rightarrow> Inr (r\<lparr>IsDeleted := True, AsDeleted := d\<rparr>, decoder''))
          else if b = 2 then
            (case Decode_U64 L decoder' of
               Inl err \<Rightarrow> Inl (Wrap err ''failed to get grace period'')
             | Inr (n, decoder'') \<Rightarrow>
                 Inr (r\<lparr>IsGracePeriod := True, AsGracePeriodBlockNumber := n\<rparr>, decoder''))
          else Inl (Errorf ''unknown ContractState value'' []))"

definition ContractState_Encode ::
  "ScaleLib \<Rightarrow> ContractState \<Rightarrow> Encoder \<Rightarrow> error option \<times> Encoder" where
  "ContractState_Encode L r encoder =
     (if IsCreated r then PushByte encoder 0
      else if IsDeleted r then
        (case PushByte encoder 1 of
           (Some err, encoder') \<Rightarrow> (Some err, encoder')
         | (None, encoder') \<Rightarrow> DeletedState_Encode (AsDeleted r) encoder')
      else if IsGracePeriod r then
        (case PushByte encoder 2 of
           (Some err, encoder') \<Rightarrow> (Some err, encoder')
         | (None, encoder') \<Rightarrow> PushBytes encoder' (Encode_U64 L (AsGracePeriodBlockNumber r)))
      else (None, encoder))"

record ContractType =
  IsNodeContract :: bool
  NodeContract :: NodeContract
  IsNameContract :: bool
  NameContract :: NameContract
  IsRentContract :: bool
  RentContract :: RentContract

definition ContractType_Decode ::
  "ScaleLib \<Rightarrow> ContractType \<Rightarrow> Decoder \<Rightarrow> error + ContractType \<times> Decoder" where
  "ContractType_Decode L r decoder =
     (case ReadOneByte decoder of
        Inl err \<Rightarrow> Inl err
      | Inr (b, decoder') \<Rightarrow>
          if b = 0 then
            (case Decode_NodeContract L decoder' of
               Inl err \<Rightarrow> Inl err
             | Inr (c, decoder'') \<Rightarrow>
                 Inr (r\<lparr>IsNodeContract := True, NodeContract := c\<rparr>, decoder''))
          else if b = 1 then
            (case Decode_NameContract L decoder' of
               Inl err \<Rightarrow> Inl err
             | Inr (c, decoder'') \<Rightarrow>
                 Inr (r\<lparr>IsNameContract := True, NameContract := c\<rparr>, decoder''))
          else if b = 2 then
            (case Decode_RentContract L decoder' of
               Inl err \<Rightarrow> Inl err
             | Inr (c, decoder'') \<Rightarrow>
                 Inr (r\<lparr>IsRentContract := True, RentContract := c\<rparr>, decoder''))
          else Inl (Errorf ''unknown contract type value'' []))"

definition ContractType_Encode ::
  "ScaleLib \<Rightarrow> ContractType \<Rightarrow> Encoder \<Rightarrow> error option \<times> Encoder" where
  "ContractType_Encode L r encoder =
     (if IsNodeContract r then
        (case PushByte encoder 0 of
           (Some err, encoder') \<Rightarrow> (Some err, encoder')
         | (None, encoder') \<Rightarrow> PushBytes encoder' (Encode_NodeContract L (NodeContract r)))
      else if IsNameContract r then
        (case PushByte encoder 1 of
           (Some err, encoder') \<Rightarrow> (Some err, encoder')
         | (None, encoder') \<Rightarrow> PushBytes encoder' (Encode_NameContract L (NameContract r)))
      else if IsRentContract r then
        (case PushByte encoder 2 of
           (Some err, encoder') \<Rightarrow> (Some err, encoder')
         | (None, encoder') \<Rightarrow> PushBytes encoder' (Encode_RentContract L (RentContract r)))
      else (None, encoder))"


text \<open>The zero value of each struct (\<open>var x T\<close>), into which the callers decode.\<close>

definition NodeCertification_zero :: NodeCertification where
  "NodeCertification_zero = \<lparr>IsDiy = False, IsCertified = False\<rparr>"

definition FarmCertification_zero :: FarmCertification where
  "FarmCertification_zero = \<lparr>isNotCertified = False, isGold = False\<rparr>"

definition Role_zero :: Role where
  "Role_zero = \<lparr>IsNode = False, IsGateway = False\<rparr>"

definition DeletedState_zero :: DeletedState where
  "DeletedState_zero = \<lparr>IsCanceledByUser = False, IsOutOfFunds = False\<rparr>"

definition ContractState_zero :: ContractState where
  "ContractState_zero =
     \<lparr>IsCreated = False, IsDeleted = False, AsDeleted = DeletedState_zero,
      IsGracePeriod = False, AsGracePeriodBlockNumber = 0\<rparr>"

definition NodeContract_zero :: NodeContract where
  "NodeContract_zero =
     \<lparr>NodeContract.Node = 0, DeploymentData = [], DeploymentHash = [],
      PublicIPsCount = 0, PublicIPs = []\<rparr>"

definition NameContract_zero :: NameContract where
  "NameContract_zero = \<lparr>NameContract.Name = []\<rparr>"

definition RentContract_zero :: RentContract where
  "RentContract_zero = \<lparr>RentContract.Node = 0\<rparr>"

definition ContractType_zero :: ContractType where
  "ContractType_zero =
     \<lparr>IsNodeContract = False, NodeContract = NodeContract_zero,
      IsNameContract = False, NameContract = NameContract_zero,
      IsRentContract = False, RentContract = RentContract_zero\<rparr>"

text \<open>The boolean discriminants of each variant, in the order of the struct.\<close>

definition count_true :: "bool list \<Rightarrow> nat" where
  "count_true bs = length (filter (\<lambda>b. b) bs)"

definition NodeCertification_discriminants :: "NodeCertification \<Rightarrow> bool list" where
  "NodeCertification_discriminants p = [IsDiy p, IsCertified p]"

definition FarmCertification_discriminants :: "FarmCertification \<Rightarrow> bool list" where
  "FarmCertification_discriminants p = [isNotCertified p, isGold p]"

definition Role_discriminants :: "Role \<Rightarrow> bool list" where
  "Role_discriminants r = [IsNode r, IsGateway r]"

definition DeletedState_discriminants :: "DeletedState \<Rightarrow> bool list" where
  "DeletedState_discriminants r = [IsCanceledByUser r, IsOutOfFunds r]"

definition ContractState_discriminants :: "ContractState \<Rightarrow> bool list" where
  "ContractState_discriminants r = [IsCreated r, IsDeleted r, IsGracePeriod r]"

definition ContractType_discriminants :: "ContractType \<Rightarrow> bool list" where
  "ContractType_discriminants r = [IsNodeContract r, IsNameContract r, IsRentContract r]"

text \<open>
  A value stands for one alternative when exactly one discriminant is true, the payload
  of the active alternative is itself such a value where it is a variant, and the payload
  fields of the other alternatives hold their zero values.
\<close>

definition ContractState_alternative :: "ContractState \<Rightarrow> bool" where
  "ContractState_alternative r =
     (count_true (ContractState_discriminants r) = 1 \<and>
      (if IsDeleted r then count_true (DeletedState_discriminants (AsDeleted r)) = 1
       else AsDeleted r = DeletedState_zero) \<and>
      (if IsGracePeriod r then True else AsGracePeriodBlockNumber r = 0))"

definition ContractType_alternative :: "ContractType \<Rightarrow> bool" where
  "ContractType_alternative r =
     (count_true (ContractType_discriminants r) = 1 \<and>
      (if IsNodeContract r then True else NodeContract r = NodeContract_zero) \<and>
      (if IsNameContract r then True else NameContract r = NameContract_zero) \<and>
      (if IsRentContract r then True else RentContract r = RentContract_zero))"

text \<open>
  The payload that \<open>Encode\<close> hands to the library for a value, and what it means for
  the library to read it back from the front of an input: the library's own round trip,
  at one value and one remaining input.
\<close>

definition reads_back :: "('a \<Rightarrow> byte list) \<Rightarrow> (Decoder \<Rightarrow> error + 'a \<times> Decoder) \<Rightarrow> 'a \<Rightarrow> byte list \<Rightarrow> bool" where
  "reads_back enc dec v rest = (dec (enc v @ rest) = Inr (v, rest))"

definition ContractState_payload_reads_back :: "ScaleLib \<Rightarrow> ContractState \<Rightarrow> byte list \<Rightarrow> bool" where
  "ContractState_payload_reads_back L r rest =
     (if IsGracePeriod r
      then reads_back (Encode_U64 L) (Decode_U64 L) (AsGracePeriodBlockNumber r) rest
      else True)"

definition ContractType_payload_reads_back :: "ScaleLib \<Rightarrow> ContractType \<Rightarrow> byte list \<Rightarrow> bool" where
  "ContractType_payload_reads_back L r rest =
     (if IsNodeContract r
      then reads_back (Encode_NodeContract L) (Decode_NodeContract L) (NodeContract r) rest
      else if IsNameContract r
      then reads_back (Encode_NameContract L) (Decode_NameContract L) (NameContract r) rest
      else if IsRentContract r
      then reads_back (Encode_RentContract L) (Decode_RentContract L) (RentContract r) rest
      else True)"

subsection \<open>An instance of the library for concrete examples\<close>

text \<open>
  SCALE writes a fixed-width integer little-endian, and a struct as its fields one after
  the other, so a \<open>RentContract\<close> is the four bytes of its node. The examples below use
  these two codecs only; the instance leaves the two structs with strings and sequences
  out (their codecs fail).
\<close>

definition le_bytes :: "nat \<Rightarrow> 'a::len word \<Rightarrow> byte list" where
  "le_bytes n w = map (\<lambda>i. ucast (drop_bit (8 * i) w)) [0..<n]"

definition le_word :: "byte list \<Rightarrow> 'a::len word" where
  "le_word bs = foldr (\<lambda>b w. ucast b + 256 * w) bs 0"

definition le_read :: "nat \<Rightarrow> Decoder \<Rightarrow> error + 'a::len word \<times> Decoder" where
  "le_read n decoder =
     (if length decoder < n then Inl EOF else Inr (le_word (take n decoder), drop n decoder))"

definition ExampleScaleLib :: ScaleLib where
  "ExampleScaleLib =
     \<lparr>Encode_U64 = le_bytes 8,
      Decode_U64 = le_read 8,
      Encode_NodeContract = (\<lambda>c. []),
      Decode_NodeContract = (\<lambda>decoder. Inl (External ''NodeContract: not in this instance'')),
      Encode_NameContract = (\<lambda>c. []),
      Decode_NameContract = (\<lambda>decoder. Inl (External ''NameContract: not in this instance'')),
      Encode_RentContract = (\<lambda>c. le_bytes 4 (RentContract.Node c)),
      Decode_RentContract = (\<lambda>decoder.
         case le_read 4 decoder of
           Inl err \<Rightarrow> Inl err
         | Inr (n, decoder') \<Rightarrow> Inr (\<lparr>RentContract.Node = n\<rparr>, decoder'))\<rparr>"


section \<open>Storage access\<close>

text \<open>
  The chain connection, the metadata and the \<open>types\<close> package of the RPC library are
  external collaborators. A connection answers a raw storage read for a key with the
  bytes stored there (none when the key is absent) or with an RPC error. The metadata is
  opaque (a type parameter); building a storage key, encoding a key part, decoding a
  stored identifier and building a call are functions of the library, taken as
  parameters, each of which may fail.
\<close>

type_synonym StorageKey = "byte list"
type_synonym Hash = "byte list"
type_synonym AccountID = "byte list"

record Conn =
  GetStorageRawLatest :: "StorageKey \<Rightarrow> error + byte list"

record Resources =
  HRU :: U64
  SRU :: U64
  CRU :: U64
  MRU :: U64

record Location =
  Longitude :: string
  Latitude :: string

record PublicConfig =
  IPv4 :: string
  IPv6 :: string
  GWv4 :: string
  GWv6 :: string
  Domain :: string

record OptionPublicConfig =
  HasValue :: bool
  AsValue :: PublicConfig

record Interface =
  Name :: string
  Mac :: string
  IPs :: "string list"

text \<open>
  \<open>Versioned\<close> and \<open>CertificationType\<close> are declared outside the files at hand; the
  node is polymorphic in them.
\<close>

record ('versioned, 'certification) Node =
  Versioned :: 'versioned
  ID :: U32
  FarmID :: U32
  TwinID :: U32
  Resources :: Resources
  Location :: Location
  Country :: string
  City :: string
  PublicConfig :: OptionPublicConfig
  Created :: U64
  FarmingPolicy :: U32
  Interfaces :: "Interface list"
  CertificationType :: 'certification

text \<open>The positional arguments of a call, and the call that \<open>types.NewCall\<close> builds.\<close>

datatype Arg =
    ArgU32 U32
  | ArgString string
  | ArgResources Resources
  | ArgLocation Location
  | ArgInterfaces "Interface list"

datatype Call = Extrinsic string "Arg list"

record 'meta TypesLib =
  EncodeToBytes_uint32 :: "U32 \<Rightarrow> error + byte list"
  EncodeToBytes_uint64 :: "U64 \<Rightarrow> error + byte list"
  EncodeToBytes_string :: "string \<Rightarrow> error + byte list"
  CreateStorageKey :: "'meta \<Rightarrow> string \<Rightarrow> string \<Rightarrow> byte list list \<Rightarrow> error + StorageKey"
  DecodeFromBytes_U32 :: "byte list \<Rightarrow> error + U32"
  DecodeFromBytes_U64 :: "byte list \<Rightarrow> error + U64"
  NewCall :: "'meta \<Rightarrow> string \<Rightarrow> Arg list \<Rightarrow> error + Call"

text \<open>
  \<open>State.GetStorageLatest(key, target)\<close> of the RPC library reads the raw bytes; when
  there are none it returns \<open>ok = false\<close> and leaves the target as it was, otherwise it
  decodes them into the target.
\<close>

definition GetStorageLatest ::
  "Conn \<Rightarrow> (byte list \<Rightarrow> error + 'a) \<Rightarrow> StorageKey \<Rightarrow> 'a \<Rightarrow> error + bool \<times> 'a" where
  "GetStorageLatest cl DecodeFromBytes key target =
     (case GetStorageRawLatest cl key of
        Inl err \<Rightarrow> Inl err
      | Inr raw \<Rightarrow>
          if length raw = 0 then Inr (False, target)
          else (case DecodeFromBytes raw of
                  Inl err \<Rightarrow> Inl err
                | Inr v \<Rightarrow> Inr (True, v)))"

text \<open>
  The client: what \<open>s.pool.Get()\<close> (node file) and \<open>s.getClient()\<close> (the other
  files) yield at the moment, a connection and the metadata, or an error.
\<close>

record 'meta Substrate =
  pool_Get :: "error + Conn \<times> 'meta"
  getClient :: "error + Conn \<times> 'meta"

text \<open>
  Modelled from the spec: \<open>getVersion\<close> is a method of the client that is not in the
  files at hand. The spec has the first byte of a nonempty buffer as the schema version.
  Every caller checks for the empty buffer before it asks for the version.
\<close>

definition getVersion :: "byte list \<Rightarrow> error + byte" where
  "getVersion raw = (case raw of [] \<Rightarrow> Inl EOF | version # rest \<Rightarrow> Inr version)"

text \<open>
  The structural decode of a record (\<open>types.DecodeFromBytes(*raw, &entity)\<close>) is the
  library's reflection over the fields of the struct: a parameter, and the record type
  with it.
\<close>

definition GetEntity ::
  "'meta TypesLib \<Rightarrow> (byte list \<Rightarrow> error + 'entity) \<Rightarrow> 'meta Substrate \<Rightarrow> U32 \<Rightarrow> error + 'entity" where
  "GetEntity T DecodeFromBytes s id' =
     (case getClient s of
        Inl err \<Rightarrow> Inl err
      | Inr (cl, meta) \<Rightarrow>
     (case EncodeToBytes_uint32 T id' of
        Inl err \<Rightarrow> Inl (Wrap err ''substrate: encoding error building query arguments'')
      | Inr bytes \<Rightarrow>
     (case CreateStorageKey T meta ''TfgridModule'' ''Entities'' [bytes, []] of
        Inl err \<Rightarrow> Inl (Wrap err ''failed to create substrate query key'')
      | Inr key \<Rightarrow>
     (case GetStorageRawLatest cl key of
        Inl err \<Rightarrow> Inl (Wrap err ''failed to lookup entity'')
      | Inr raw \<Rightarrow>
          if length raw = 0 then Inl (Wrap ErrNotFound ''entity not found'')
          else
     (case getVersion raw of
        Inl err \<Rightarrow> Inl err
      | Inr version \<Rightarrow>
          if version = 1 then
            (case DecodeFromBytes raw of
               Inl err \<Rightarrow> Inl (Wrap err ''failed to load object'')
             | Inr entity \<Rightarrow> Inr entity)
          else Inl ErrUnknownVersion)))))"

definition GetFarm ::
  "'meta TypesLib \<Rightarrow> (byte list \<Rightarrow> error + 'farm) \<Rightarrow> 'meta Substrate \<Rightarrow> U32 \<Rightarrow> error + 'farm" where
  "GetFarm T DecodeFromBytes s id' =
     (case getClient s of
        Inl err \<Rightarrow> Inl err
      | Inr (cl, meta) \<Rightarrow>
     (case EncodeToBytes_uint32 T id' of
        Inl err \<Rightarrow> Inl (Wrap err ''substrate: encoding error building query arguments'')
      | Inr bytes \<Rightarrow>
     (case CreateStorageKey T meta ''TfgridModule'' ''Farms'' [bytes, []] of
        Inl err \<Rightarrow> Inl (Wrap err ''failed to create substrate query key'')
      | Inr key \<Rightarrow>
     (case GetStorageRawLatest cl key of
        Inl err \<Rightarrow> Inl (Wrap err ''failed to lookup entity'')
      | Inr raw \<Rightarrow>
          if length raw = 0 then Inl (Wrap ErrNotFound ''farm not found'')
          else
     (case getVersion raw of
        Inl err \<Rightarrow> Inl err
      | Inr version \<Rightarrow>
          if version = 3 \<or> version = 2 \<or> version = 1 then
            (case DecodeFromBytes raw of
               Inl err \<Rightarrow> Inl (Wrap err ''failed to load object'')
             | Inr farm \<Rightarrow> Inr farm)
          else Inl ErrUnknownVersion)))))"

definition getNode :: "(byte list \<Rightarrow> error + 'node) \<Rightarrow> Conn \<Rightarrow> StorageKey \<Rightarrow> error + 'node" where
  "getNode DecodeFromBytes cl key =
     (case GetStorageRawLatest cl key of
        Inl err \<Rightarrow> Inl (Wrap err ''failed to lookup entity'')
      | Inr raw \<Rightarrow>
          if length raw = 0 then Inl (Wrap ErrNotFound ''node not found'')
          else
     (case getVersion raw of
        Inl err \<Rightarrow> Inl err
      | Inr version \<Rightarrow>
          if version = 0 \<or> version = 1 \<or> version = 2 then
            (case DecodeFromBytes raw of
               Inl err \<Rightarrow> Inl (Wrap err ''failed to load object'')
             | Inr node \<Rightarrow> Inr node)
          else Inl ErrUnknownVersion))"

definition GetNode ::
  "'meta TypesLib \<Rightarrow> (byte list \<Rightarrow> error + 'node) \<Rightarrow> 'meta Substrate \<Rightarrow> U32 \<Rightarrow> error + 'node" where
  "GetNode T DecodeFromBytes s id' =
     (case pool_Get s of
        Inl err \<Rightarrow> Inl err
      | Inr (cl, meta) \<Rightarrow>
     (case EncodeToBytes_uint32 T id' of
        Inl err \<Rightarrow> Inl (Wrap err ''substrate: encoding error building query arguments'')
      | Inr bytes \<Rightarrow>
     (case CreateStorageKey T meta ''TfgridModule'' ''Nodes'' [bytes, []] of
        Inl err \<Rightarrow> Inl (Wrap err ''failed to create substrate query key'')
      | Inr key \<Rightarrow> getNode DecodeFromBytes cl key)))"

definition getContract ::
  "(byte list \<Rightarrow> error + 'contract) \<Rightarrow> Conn \<Rightarrow> StorageKey \<Rightarrow> error + 'contract" where
  "getContract DecodeFromBytes cl key =
     (case GetStorageRawLatest cl key of
        Inl err \<Rightarrow> Inl (Wrap err ''failed to lookup contract'')
      | Inr raw \<Rightarrow>
          if length raw = 0 then Inl (Wrap ErrNotFound ''contract not found'')
          else
            (case DecodeFromBytes raw of
               Inl err \<Rightarrow> Inl (Wrap err ''failed to load object'')
             | Inr contract \<Rightarrow> Inr contract))"

definition GetContract ::
  "'meta TypesLib \<Rightarrow> (byte list \<Rightarrow> error + 'contract) \<Rightarrow> 'meta Substrate \<Rightarrow> U64 \<Rightarrow>
   error + 'contract" where
  "GetContract T DecodeFromBytes s id' =
     (case getClient s of
        Inl err \<Rightarrow> Inl err
      | Inr (cl, meta) \<Rightarrow>
     (case EncodeToBytes_uint64 T id' of
        Inl err \<Rightarrow> Inl (Wrap err ''substrate: encoding error building query arguments'')
      | Inr bytes \<Rightarrow>
     (case CreateStorageKey T meta ''SmartContractModule'' ''Contracts'' [bytes, []] of
        Inl err \<Rightarrow> Inl (Wrap err ''failed to create substrate query key'')
      | Inr key \<Rightarrow> getContract DecodeFromBytes cl key)))"


section \<open>Derived-index lookups\<close>

definition GetNodeByTwinID :: "'meta TypesLib \<Rightarrow> 'meta Substrate \<Rightarrow> U32 \<Rightarrow> error + U32" where
  "GetNodeByTwinID T s twin =
     (case pool_Get s of
        Inl err \<Rightarrow> Inl err
      | Inr (cl, meta) \<Rightarrow>
     (case EncodeToBytes_uint32 T twin of
        Inl err \<Rightarrow> Inl err
      | Inr bytes \<Rightarrow>
     (case CreateStorageKey T meta ''TfgridModule'' ''NodeIdByTwinID'' [bytes, []] of
        Inl err \<Rightarrow> Inl (Wrap err ''failed to create substrate query key'')
      | Inr key \<Rightarrow>
     (case GetStorageLatest cl (DecodeFromBytes_U32 T) key 0 of
        Inl err \<Rightarrow> Inl (Wrap err ''failed to lookup entity'')
      | Inr (ok, id') \<Rightarrow>
          if \<not> ok \<or> id' = 0 then Inl (Wrap ErrNotFound ''node not found'')
          else Inr id'))))"

text \<open>The two contract lookups drop the \<open>ok\<close> of the read and test the identifier alone.\<close>

definition GetContractWithHash ::
  "'meta TypesLib \<Rightarrow> 'meta Substrate \<Rightarrow> U32 \<Rightarrow> string \<Rightarrow> error + U64" where
  "GetContractWithHash T s node hash =
     (case getClient s of
        Inl err \<Rightarrow> Inl err
      | Inr (cl, meta) \<Rightarrow>
     (case EncodeToBytes_uint32 T node of
        Inl err \<Rightarrow> Inl err
      | Inr nodeBytes \<Rightarrow>
     (case EncodeToBytes_string T hash of
        Inl err \<Rightarrow> Inl err
      | Inr hashBytes \<Rightarrow>
     (case CreateStorageKey T meta ''SmartContractModule'' ''ContractIDByNodeIDAndHash''
             [nodeBytes, hashBytes, []] of
        Inl err \<Rightarrow> Inl (Wrap err ''failed to create substrate query key'')
      | Inr key \<Rightarrow>
     (case GetStorageLatest cl (DecodeFromBytes_U64 T) key 0 of
        Inl err \<Rightarrow> Inl (Wrap err ''failed to lookup contracts'')
      | Inr (ok, contract) \<Rightarrow>
          if contract = 0 then Inl (Wrap ErrNotFound ''contract not found'')
          else Inr contract)))))"

definition GetContractIDByNameRegistration ::
  "'meta TypesLib \<Rightarrow> 'meta Substrate \<Rightarrow> string \<Rightarrow> error + U64" where
  "GetContractIDByNameRegistration T s name =
     (case getClient s of
        Inl err \<Rightarrow> Inl err
      | Inr (cl, meta) \<Rightarrow>
     (case EncodeToBytes_string T name of
        Inl err \<Rightarrow> Inl err
      | Inr nameBytes \<Rightarrow>
     (case CreateStorageKey T meta ''SmartContractModule'' ''ContractIDByNameRegistration''
             [nameBytes, []] of
        Inl err \<Rightarrow> Inl (Wrap err ''failed to create substrate query key'')
      | Inr key \<Rightarrow>
     (case GetStorageLatest cl (DecodeFromBytes_U64 T) key 0 of
        Inl err \<Rightarrow> Inl (Wrap err ''failed to lookup contracts'')
      | Inr (ok, contract) \<Rightarrow>
          if contract = 0 then Inl (Wrap ErrNotFound ''contract not found'')
          else Inr contract))))"

section \<open>Submitting calls\<close>

text \<open>
  \<open>Identity\<close> is an interface of the client declared outside the files at hand; the
  code here asks it for its public key only. \<open>s.Call\<close> submits a signed call and
  returns the hash of the block that holds it, or an error; the chain behind the client
  may have changed once it returns, so it also yields the client as it is afterwards.
  \<open>s.checkForError\<close> reads the events of that block for the account. Both are methods of
  the client that are not in the files at hand: parameters of the operations below.
\<close>

record Identity =
  PublicKey :: "byte list"

definition NewAccountID :: "byte list \<Rightarrow> AccountID" where
  "NewAccountID b = b"

record 'meta Methods =
  Call :: "'meta Substrate \<Rightarrow> Conn \<Rightarrow> 'meta \<Rightarrow> Identity \<Rightarrow> Call \<Rightarrow>
           (error + Hash) \<times> 'meta Substrate"
  checkForError :: "Conn \<Rightarrow> 'meta \<Rightarrow> Hash \<Rightarrow> AccountID \<Rightarrow> error option"

text \<open>
  The operations return their Go results together with the client after the call.
\<close>

definition CreateNode ::
  "'meta TypesLib \<Rightarrow> 'meta Methods \<Rightarrow> 'meta Substrate \<Rightarrow> Identity \<Rightarrow> ('v, 'c) Node \<Rightarrow>
   (error + U32) \<times> 'meta Substrate" where
  "CreateNode T M s identity node =
     (case pool_Get s of
        Inl err \<Rightarrow> (Inl err, s)
      | Inr (cl, meta) \<Rightarrow>
          if TwinID node = 0 then (Inl (Errorf ''twin id is required'' []), s)
          else
     (case NewCall T meta ''TfgridModule.create_node''
             [ArgU32 (FarmID node), ArgResources (Resources node),
              ArgLocation (Location node), ArgString (Country node),
              ArgString (City node), ArgInterfaces (Interfaces node)] of
        Inl err \<Rightarrow> (Inl (Wrap err ''failed to create call''), s)
      | Inr c \<Rightarrow>
     (case Call M s cl meta identity c of
        (Inl err, s') \<Rightarrow> (Inl (Wrap err ''failed to create node''), s')
      | (Inr hash, s') \<Rightarrow> (GetNodeByTwinID T s' (TwinID node), s'))))"

text \<open>\<open>UpdateNode\<close> also logs the hash of the call at debug level, which has no part here.\<close>

definition UpdateNode ::
  "'meta TypesLib \<Rightarrow> 'meta Methods \<Rightarrow> 'meta Substrate \<Rightarrow> Identity \<Rightarrow> ('v, 'c) Node \<Rightarrow>
   (error + U32) \<times> 'meta Substrate" where
  "UpdateNode T M s identity node =
     (case pool_Get s of
        Inl err \<Rightarrow> (Inl err, s)
      | Inr (cl, meta) \<Rightarrow>
          if TwinID node = 0 then (Inl (Errorf ''twin id is required'' []), s)
          else
     (case NewCall T meta ''TfgridModule.update_node''
             [ArgU32 (ID node), ArgU32 (FarmID node), ArgResources (Resources node),
              ArgLocation (Location node), ArgString (Country node),
              ArgString (City node), ArgInterfaces (Interfaces node)] of
        Inl err \<Rightarrow> (Inl (Wrap err ''failed to create call''), s)
      | Inr c \<Rightarrow>
     (case Call M s cl meta identity c of
        (Inl err, s') \<Rightarrow> (Inl (Wrap err ''failed to update node''), s')
      | (Inr hash, s') \<Rightarrow> (GetNodeByTwinID T s' (TwinID node), s'))))"

definition CreateRentContract ::
  "'meta TypesLib \<Rightarrow> 'meta Methods \<Rightarrow> 'meta Substrate \<Rightarrow> Identity \<Rightarrow> U32 \<Rightarrow>
   (error + U64) \<times> 'meta Substrate" where
  "CreateRentContract T M s identity node =
     (case getClient s of
        Inl err \<Rightarrow> (Inl err, s)
      | Inr (cl, meta) \<Rightarrow>
     (case NewCall T meta ''SmartContractModule.create_rent_contract'' [ArgU32 node] of
        Inl err \<Rightarrow> (Inl (Wrap err ''failed to create call''), s)
      | Inr c \<Rightarrow>
     (case Call M s cl meta identity c of
        (Inl err, s') \<Rightarrow> (Inl (Wrap err ''failed to create rent contract''), s')
      | (Inr blockHash, s') \<Rightarrow>
     (case checkForError M cl meta blockHash (NewAccountID (PublicKey identity)) of
        Some err \<Rightarrow> (Inl err, s')
      | None \<Rightarrow> (Inr 0, s')))))"

subsection \<open>A client for concrete examples\<close>

text \<open>
  An instance of the parameters: integer key parts little-endian, a string as one
  length byte and its characters, a storage key that is the names and the parts put
  together (no hashing), a connection that answers every read with the same bytes, a
  call that is included in block \<open>[1]\<close> and after which every read answers \<open>after\<close>.
\<close>

definition ExampleTypesLib :: "unit TypesLib" where
  "ExampleTypesLib =
     \<lparr>EncodeToBytes_uint32 = (\<lambda>n. Inr (le_bytes 4 n)),
      EncodeToBytes_uint64 = (\<lambda>n. Inr (le_bytes 8 n)),
      EncodeToBytes_string = (\<lambda>s. Inr (of_nat (4 * length s) # map of_char s)),
      CreateStorageKey = (\<lambda>meta module item args.
         Inr (map of_char module @ map of_char item @ concat args)),
      DecodeFromBytes_U32 = (\<lambda>raw.
         case le_read 4 raw of Inl err \<Rightarrow> Inl err | Inr (v, rest) \<Rightarrow> Inr v),
      DecodeFromBytes_U64 = (\<lambda>raw.
         case le_read 8 raw of Inl err \<Rightarrow> Inl err | Inr (v, rest) \<Rightarrow> Inr v),
      NewCall = (\<lambda>meta name args. Inr (Extrinsic name args))\<rparr>"

definition ExampleConn :: "byte list \<Rightarrow> Conn" where
  "ExampleConn raw = \<lparr>GetStorageRawLatest = (\<lambda>key. Inr raw)\<rparr>"

definition ExampleSubstrate :: "byte list \<Rightarrow> unit Substrate" where
  "ExampleSubstrate raw =
     \<lparr>pool_Get = Inr (ExampleConn raw, ()), getClient = Inr (ExampleConn raw, ())\<rparr>"

definition ExampleMethods :: "byte list \<Rightarrow> unit Methods" where
  "ExampleMethods after =
     \<lparr>Call = (\<lambda>s cl meta identity c. (Inr [1], ExampleSubstrate after)),
      checkForError = (\<lambda>cl meta blockHash account. None)\<rparr>"

definition ExampleNode :: "(unit, unit) Node" where
  "ExampleNode =
     \<lparr>Versioned = (), ID = 0, FarmID = 1, TwinID = 7,
      Resources = \<lparr>HRU = 0, SRU = 0, CRU = 0, MRU = 0\<rparr>,
      Location = \<lparr>Longitude = [], Latitude = []\<rparr>,
      Country = [], City = [],
      PublicConfig = \<lparr>HasValue = False,
        AsValue = \<lparr>IPv4 = [], IPv6 = [], GWv4 = [], GWv6 = [], Domain = []\<rparr>\<rparr>,
      Created = 0, FarmingPolicy = 0, Interfaces = [], CertificationType = ()\<rparr>"

section \<open>Facts about the writer and the discriminants\<close>

lemma PushByte_unbounded:
  "room e = None \<Longrightarrow> PushByte e b = (None, e\<lparr>written := written e @ [b]\<rparr>)"
  by (simp add: PushByte_def)

lemma PushBytes_unbounded:
  "room e = None \<Longrightarrow> PushBytes e bs = (None, e\<lparr>written := written e @ bs\<rparr>)"
  by (induction bs arbitrary: e) (simp_all add: PushByte_unbounded)

lemma count_true_2: "count_true [a, b] = Suc 0 \<longleftrightarrow> (a \<noteq> b)"
  by (auto simp: count_true_def)

lemma count_true_3:
  "count_true [a, b, c] = Suc 0 \<longleftrightarrow>
     (a \<and> \<not> b \<and> \<not> c) \<or> (\<not> a \<and> b \<and> \<not> c) \<or> (\<not> a \<and> \<not> b \<and> c)"
  by (auto simp: count_true_def)

lemma count_true_0_2: "count_true [a, b] = 0 \<longleftrightarrow> (\<not> a \<and> \<not> b)"
  by (auto simp: count_true_def)

lemma count_true_0_3: "count_true [a, b, c] = 0 \<longleftrightarrow> (\<not> a \<and> \<not> b \<and> \<not> c)"
  by (auto simp: count_true_def)

section \<open>Round trips of the variants\<close>

lemma NodeCertification_round_trip:
  "count_true (NodeCertification_discriminants p) = 1 \<Longrightarrow>
   fst (NodeCertification_Encode p NewEncoder) = None \<and>
   NodeCertification_Decode NodeCertification_zero
     (written (snd (NodeCertification_Encode p NewEncoder)) @ rest) = Inr (p, rest)"
  by (cases p)
     (auto simp: NodeCertification_discriminants_def count_true_2 NodeCertification_Encode_def
        NodeCertification_Decode_def NodeCertification_zero_def PushByte_unbounded
        NewEncoder_def ReadOneByte_def)

lemma FarmCertification_round_trip:
  "count_true (FarmCertification_discriminants p) = 1 \<Longrightarrow>
   fst (FarmCertification_Encode p NewEncoder) = None \<and>
   FarmCertification_Decode FarmCertification_zero
     (written (snd (FarmCertification_Encode p NewEncoder)) @ rest) = Inr (p, rest)"
  by (cases p)
     (auto simp: FarmCertification_discriminants_def count_true_2 FarmCertification_Encode_def
        FarmCertification_Decode_def FarmCertification_zero_def PushByte_unbounded
        NewEncoder_def ReadOneByte_def)

lemma Role_round_trip:
  "count_true (Role_discriminants r) = 1 \<Longrightarrow>
   fst (Role_Encode r NewEncoder) = None \<and>
   Role_Decode Role_zero (written (snd (Role_Encode r NewEncoder)) @ rest) = Inr (r, rest)"
  by (cases r)
     (auto simp: Role_discriminants_def count_true_2 Role_Encode_def Role_Decode_def
        Role_zero_def PushByte_unbounded NewEncoder_def ReadOneByte_def)

lemma DeletedState_round_trip:
  "count_true (DeletedState_discriminants r) = 1 \<Longrightarrow>
   fst (DeletedState_Encode r NewEncoder) = None \<and>
   DeletedState_Decode DeletedState_zero
     (written (snd (DeletedState_Encode r NewEncoder)) @ rest) = Inr (r, rest)"
  by (cases r)
     (auto simp: DeletedState_discriminants_def count_true_2 DeletedState_Encode_def
        DeletedState_Decode_def DeletedState_zero_def PushByte_unbounded NewEncoder_def
        ReadOneByte_def)

lemma ContractState_round_trip:
  assumes "ContractState_alternative r" and "ContractState_payload_reads_back L r rest"
  shows "fst (ContractState_Encode L r NewEncoder) = None \<and>
   ContractState_Decode L ContractState_zero
     (written (snd (ContractState_Encode L r NewEncoder)) @ rest) = Inr (r, rest)"
  using assms
  by (cases r; cases "AsDeleted r")
     (auto simp: ContractState_alternative_def ContractState_payload_reads_back_def
        reads_back_def ContractState_discriminants_def DeletedState_discriminants_def
        count_true_2 count_true_3 ContractState_Encode_def ContractState_Decode_def
        ContractState_zero_def DeletedState_Encode_def DeletedState_Decode_def
        DeletedState_zero_def PushByte_unbounded NewEncoder_def PushBytes_unbounded
        ReadOneByte_def split: if_splits)

lemma ContractType_round_trip:
  assumes "ContractType_alternative r" and "ContractType_payload_reads_back L r rest"
  shows "fst (ContractType_Encode L r NewEncoder) = None \<and>
   ContractType_Decode L ContractType_zero
     (written (snd (ContractType_Encode L r NewEncoder)) @ rest) = Inr (r, rest)"
  using assms
  by (cases r)
     (auto simp: ContractType_alternative_def ContractType_payload_reads_back_def
        reads_back_def ContractType_discriminants_def count_true_3 ContractType_Encode_def
        ContractType_Decode_def ContractType_zero_def PushByte_unbounded NewEncoder_def
        PushBytes_unbounded ReadOneByte_def split: if_splits)

text \<open>
  C1 (as amended). For each of the six variants and every value that stands for one
  alternative (exactly one discriminant true; in a deleted contract state the nested
  deleted state has exactly one discriminant true as well; the payload fields of the
  alternatives that are not active hold their zero values), encoding into a fresh buffer
  succeeds, and decoding the bytes into a zero value, whatever input follows them, gives
  the value back and leaves that input. Where the active alternative carries a payload
  that the SCALE library encodes (the block number of a grace period, the three contract
  structs), this is under the library reading that payload back.
\<close>

theorem variant_round_trip:
  "(count_true (NodeCertification_discriminants nc) = 1 \<longrightarrow>
      fst (NodeCertification_Encode nc NewEncoder) = None \<and>
      NodeCertification_Decode NodeCertification_zero
        (written (snd (NodeCertification_Encode nc NewEncoder)) @ rest) = Inr (nc, rest)) \<and>
   (count_true (FarmCertification_discriminants fc) = 1 \<longrightarrow>
      fst (FarmCertification_Encode fc NewEncoder) = None \<and>
      FarmCertification_Decode FarmCertification_zero
        (written (snd (FarmCertification_Encode fc NewEncoder)) @ rest) = Inr (fc, rest)) \<and>
   (count_true (Role_discriminants ro) = 1 \<longrightarrow>
      fst (Role_Encode ro NewEncoder) = None \<and>
      Role_Decode Role_zero (written (snd (Role_Encode ro NewEncoder)) @ rest) = Inr (ro, rest)) \<and>
   (count_true (DeletedState_discriminants ds) = 1 \<longrightarrow>
      fst (DeletedState_Encode ds NewEncoder) = None \<and>
      DeletedState_Decode DeletedState_zero
        (written (snd (DeletedState_Encode ds NewEncoder)) @ rest) = Inr (ds, rest)) \<and>
   (ContractState_alternative cs \<and> ContractState_payload_reads_back L cs rest \<longrightarrow>
      fst (ContractState_Encode L cs NewEncoder) = None \<and>
      ContractState_Decode L ContractState_zero
        (written (snd (ContractState_Encode L cs NewEncoder)) @ rest) = Inr (cs, rest)) \<and>
   (ContractType_alternative ct \<and> ContractType_payload_reads_back L ct rest \<longrightarrow>
      fst (ContractType_Encode L ct NewEncoder) = None \<and>
      ContractType_Decode L ContractType_zero
        (written (snd (ContractType_Encode L ct NewEncoder)) @ rest) = Inr (ct, rest))"
  using NodeCertification_round_trip [of nc rest] FarmCertification_round_trip [of fc rest]
    Role_round_trip [of ro rest] DeletedState_round_trip [of ds rest]
    ContractState_round_trip [of cs L rest] ContractType_round_trip [of ct L rest]
  by blast

text \<open>
  The instance: a deleted contract state with the out-of-funds reason is the bytes 1, 1
  and comes back with both discriminants; a grace period at block 258 is the byte 2 and
  eight bytes little-endian; a rent contract on node 5 is the byte 2 and four bytes.
\<close>

theorem variant_round_trip_witness:
  "ContractState_Encode ExampleScaleLib
      \<lparr>IsCreated = False, IsDeleted = True,
       AsDeleted = \<lparr>IsCanceledByUser = False, IsOutOfFunds = True\<rparr>,
       IsGracePeriod = False, AsGracePeriodBlockNumber = 0\<rparr> NewEncoder
     = (None, \<lparr>written = [1, 1], room = None\<rparr>) \<and>
   ContractState_Decode ExampleScaleLib ContractState_zero [1, 1, 9]
     = Inr (\<lparr>IsCreated = False, IsDeleted = True,
             AsDeleted = \<lparr>IsCanceledByUser = False, IsOutOfFunds = True\<rparr>,
             IsGracePeriod = False, AsGracePeriodBlockNumber = 0\<rparr>, [9]) \<and>
   ContractState_Decode ExampleScaleLib ContractState_zero [2, 2, 1, 0, 0, 0, 0, 0, 0, 9]
     = Inr (\<lparr>IsCreated = False, IsDeleted = False, AsDeleted = DeletedState_zero,
             IsGracePeriod = True, AsGracePeriodBlockNumber = 258\<rparr>, [9]) \<and>
   ContractType_Decode ExampleScaleLib ContractType_zero [2, 5, 0, 0, 0, 9]
     = Inr (\<lparr>IsNodeContract = False, NodeContract = NodeContract_zero,
             IsNameContract = False, NameContract = NameContract_zero,
             IsRentContract = True, RentContract = \<lparr>RentContract.Node = 5\<rparr>\<rparr>, [9]) \<and>
   NodeCertification_Decode NodeCertification_zero [1, 9]
     = Inr (\<lparr>IsDiy = False, IsCertified = True\<rparr>, [9]) \<and>
   FarmCertification_Decode FarmCertification_zero [1, 9]
     = Inr (\<lparr>isNotCertified = False, isGold = True\<rparr>, [9]) \<and>
   Role_Decode Role_zero [0, 9] = Inr (\<lparr>IsNode = True, IsGateway = False\<rparr>, [9]) \<and>
   DeletedState_Decode DeletedState_zero [0, 9]
     = Inr (\<lparr>IsCanceledByUser = True, IsOutOfFunds = False\<rparr>, [9])"
proof -
  let ?del = "\<lparr>IsCreated = False, IsDeleted = True,
       AsDeleted = \<lparr>IsCanceledByUser = False, IsOutOfFunds = True\<rparr>,
       IsGracePeriod = False, AsGracePeriodBlockNumber = 0\<rparr>"
  let ?grace = "\<lparr>IsCreated = False, IsDeleted = False, AsDeleted = DeletedState_zero,
             IsGracePeriod = True, AsGracePeriodBlockNumber = 258\<rparr>"
  let ?rent = "\<lparr>IsNodeContract = False, NodeContract = NodeContract_zero,
             IsNameContract = False, NameContract = NameContract_zero,
             IsRentContract = True, RentContract = \<lparr>RentContract.Node = 5\<rparr>\<rparr>"
  have enc_del: "ContractState_Encode ExampleScaleLib ?del NewEncoder
      = (None, \<lparr>written = [1, 1], room = None\<rparr>)"
    by (simp add: ContractState_Encode_def DeletedState_Encode_def PushByte_def NewEncoder_def)
  have enc_grace: "ContractState_Encode ExampleScaleLib ?grace NewEncoder
      = (None, \<lparr>written = [2, 2, 1, 0, 0, 0, 0, 0, 0], room = None\<rparr>)"
    by (simp add: ContractState_Encode_def PushByte_def NewEncoder_def ExampleScaleLib_def
        le_bytes_def upt_rec)
  have enc_rent: "ContractType_Encode ExampleScaleLib ?rent NewEncoder
      = (None, \<lparr>written = [2, 5, 0, 0, 0], room = None\<rparr>)"
    by (simp add: ContractType_Encode_def PushByte_def NewEncoder_def ExampleScaleLib_def
        le_bytes_def upt_rec)
  have alt_del: "ContractState_alternative ?del \<and>
      ContractState_payload_reads_back ExampleScaleLib ?del [9]"
    by (simp add: ContractState_alternative_def ContractState_payload_reads_back_def
        ContractState_discriminants_def DeletedState_discriminants_def count_true_def)
  have alt_grace: "ContractState_alternative ?grace \<and>
      ContractState_payload_reads_back ExampleScaleLib ?grace [9]"
    by (simp add: ContractState_alternative_def ContractState_payload_reads_back_def
        ContractState_discriminants_def count_true_def reads_back_def ExampleScaleLib_def
        le_bytes_def le_read_def le_word_def upt_rec)
  have alt_rent: "ContractType_alternative ?rent \<and>
      ContractType_payload_reads_back ExampleScaleLib ?rent [9]"
    by (simp add: ContractType_alternative_def ContractType_payload_reads_back_def
        ContractType_discriminants_def count_true_def reads_back_def ExampleScaleLib_def
        le_bytes_def le_read_def le_word_def upt_rec)
  have one: "count_true (NodeCertification_discriminants \<lparr>IsDiy = False, IsCertified = True\<rparr>) = 1"
    "count_true (FarmCertification_discriminants \<lparr>isNotCertified = False, isGold = True\<rparr>) = 1"
    "count_true (Role_discriminants \<lparr>IsNode = True, IsGateway = False\<rparr>) = 1"
    "count_true (DeletedState_discriminants \<lparr>IsCanceledByUser = True, IsOutOfFunds = False\<rparr>) = 1"
    by (simp_all add: count_true_def NodeCertification_discriminants_def
        FarmCertification_discriminants_def Role_discriminants_def DeletedState_discriminants_def)
  have simple:
    "NodeCertification_Encode \<lparr>IsDiy = False, IsCertified = True\<rparr> NewEncoder
       = (None, \<lparr>written = [1], room = None\<rparr>)"
    "FarmCertification_Encode \<lparr>isNotCertified = False, isGold = True\<rparr> NewEncoder
       = (None, \<lparr>written = [1], room = None\<rparr>)"
    "Role_Encode \<lparr>IsNode = True, IsGateway = False\<rparr> NewEncoder
       = (None, \<lparr>written = [0], room = None\<rparr>)"
    "DeletedState_Encode \<lparr>IsCanceledByUser = True, IsOutOfFunds = False\<rparr> NewEncoder
       = (None, \<lparr>written = [0], room = None\<rparr>)"
    by (simp_all add: NodeCertification_Encode_def FarmCertification_Encode_def Role_Encode_def
        DeletedState_Encode_def PushByte_def NewEncoder_def)
  show ?thesis
    using variant_round_trip [of "\<lparr>IsDiy = False, IsCertified = True\<rparr>" "[9]"
        "\<lparr>isNotCertified = False, isGold = True\<rparr>" "\<lparr>IsNode = True, IsGateway = False\<rparr>"
        "\<lparr>IsCanceledByUser = True, IsOutOfFunds = False\<rparr>" ?del ExampleScaleLib ?rent]
      variant_round_trip [of _ "[9]" _ _ _ ?grace ExampleScaleLib]
      alt_del alt_grace alt_rent one
    by (simp add: enc_del enc_grace enc_rent simple)
qed

text \<open>
  The claim as it is written asks for exactly one discriminant and no more. A created
  contract state that still carries a block number has exactly one discriminant true; it
  is encoded as the single byte 0, and decoding that byte gives block number 0, not 7.
\<close>

theorem variant_round_trip_counterexample:
  "count_true (ContractState_discriminants
      \<lparr>IsCreated = True, IsDeleted = False, AsDeleted = DeletedState_zero,
       IsGracePeriod = False, AsGracePeriodBlockNumber = 7\<rparr>) = 1 \<and>
   ContractState_Encode ExampleScaleLib
      \<lparr>IsCreated = True, IsDeleted = False, AsDeleted = DeletedState_zero,
       IsGracePeriod = False, AsGracePeriodBlockNumber = 7\<rparr> NewEncoder
     = (None, \<lparr>written = [0], room = None\<rparr>) \<and>
   ContractState_Decode ExampleScaleLib ContractState_zero [0]
     = Inr (\<lparr>IsCreated = True, IsDeleted = False, AsDeleted = DeletedState_zero,
             IsGracePeriod = False, AsGracePeriodBlockNumber = 0\<rparr>, []) \<and>
   \<lparr>IsCreated = True, IsDeleted = False, AsDeleted = DeletedState_zero,
    IsGracePeriod = False, AsGracePeriodBlockNumber = 0\<rparr>
     \<noteq> \<lparr>IsCreated = True, IsDeleted = False, AsDeleted = DeletedState_zero,
        IsGracePeriod = False, AsGracePeriodBlockNumber = (7 :: U64)\<rparr>"
  by (simp add: ContractState_discriminants_def count_true_def ContractState_Encode_def
      ContractState_Decode_def ContractState_zero_def PushByte_def NewEncoder_def
      ReadOneByte_def)

section \<open>Discriminants after a decode\<close>

lemma NodeCertification_Decode_one:
  "NodeCertification_Decode NodeCertification_zero d = Inr (p, d') \<Longrightarrow>
   count_true (NodeCertification_discriminants p) = 1"
  by (auto simp: NodeCertification_Decode_def NodeCertification_zero_def ReadOneByte_def
      NodeCertification_discriminants_def count_true_def split: list.splits if_splits)

lemma FarmCertification_Decode_one:
  "FarmCertification_Decode FarmCertification_zero d = Inr (p, d') \<Longrightarrow>
   count_true (FarmCertification_discriminants p) = 1"
  by (auto simp: FarmCertification_Decode_def FarmCertification_zero_def ReadOneByte_def
      FarmCertification_discriminants_def count_true_def split: list.splits if_splits)

lemma Role_Decode_one:
  "Role_Decode Role_zero d = Inr (r, d') \<Longrightarrow> count_true (Role_discriminants r) = 1"
  by (auto simp: Role_Decode_def Role_zero_def ReadOneByte_def Role_discriminants_def
      count_true_def split: list.splits if_splits)

lemma DeletedState_Decode_count:
  "DeletedState_Decode DeletedState_zero d = Inr (r, d') \<Longrightarrow>
   count_true (DeletedState_discriminants r) = (if take 1 d = [2] then 0 else 1)"
  by (auto simp: DeletedState_Decode_def DeletedState_zero_def ReadOneByte_def
      DeletedState_discriminants_def count_true_def split: list.splits if_splits)

lemma ContractState_Decode_one:
  "ContractState_Decode L ContractState_zero d = Inr (r, d') \<Longrightarrow>
   count_true (ContractState_discriminants r) = 1"
  by (auto simp: ContractState_Decode_def ContractState_zero_def ReadOneByte_def
      ContractState_discriminants_def count_true_def split: list.splits if_splits sum.splits)

lemma ContractType_Decode_one:
  "ContractType_Decode L ContractType_zero d = Inr (r, d') \<Longrightarrow>
   count_true (ContractType_discriminants r) = 1"
  by (auto simp: ContractType_Decode_def ContractType_zero_def ReadOneByte_def
      ContractType_discriminants_def count_true_def split: list.splits if_splits sum.splits)

text \<open>
  C3 (as amended). Whenever decoding an input into a zero value succeeds, the value has
  exactly one discriminant true for NodeCertification, FarmCertification, Role,
  ContractState and ContractType. For DeletedState it has exactly one true when the
  discriminant byte is 0 or 1 and none when the byte is 2, which the decoder accepts
  without setting a field; it never has more than one.
\<close>

theorem decode_sets_one_discriminant:
  "(NodeCertification_Decode NodeCertification_zero d = Inr (nc, d') \<longrightarrow>
      count_true (NodeCertification_discriminants nc) = 1) \<and>
   (FarmCertification_Decode FarmCertification_zero d = Inr (fc, d') \<longrightarrow>
      count_true (FarmCertification_discriminants fc) = 1) \<and>
   (Role_Decode Role_zero d = Inr (ro, d') \<longrightarrow> count_true (Role_discriminants ro) = 1) \<and>
   (ContractState_Decode L ContractState_zero d = Inr (cs, d') \<longrightarrow>
      count_true (ContractState_discriminants cs) = 1) \<and>
   (ContractType_Decode L ContractType_zero d = Inr (ct, d') \<longrightarrow>
      count_true (ContractType_discriminants ct) = 1) \<and>
   (DeletedState_Decode DeletedState_zero d = Inr (ds, d') \<longrightarrow>
      count_true (DeletedState_discriminants ds) = (if take 1 d = [2] then 0 else 1))"
  using NodeCertification_Decode_one [of d nc d'] FarmCertification_Decode_one [of d fc d']
    Role_Decode_one [of d ro d'] ContractState_Decode_one [of L d cs d']
    ContractType_Decode_one [of L d ct d'] DeletedState_Decode_count [of d ds d']
  by blast

theorem decode_sets_one_discriminant_witness:
  "NodeCertification_Decode NodeCertification_zero [1, 9]
     = Inr (\<lparr>IsDiy = False, IsCertified = True\<rparr>, [9]) \<and>
   count_true (NodeCertification_discriminants \<lparr>IsDiy = False, IsCertified = True\<rparr>) = 1 \<and>
   FarmCertification_Decode FarmCertification_zero [1, 9]
     = Inr (\<lparr>isNotCertified = False, isGold = True\<rparr>, [9]) \<and>
   count_true (FarmCertification_discriminants \<lparr>isNotCertified = False, isGold = True\<rparr>) = 1 \<and>
   Role_Decode Role_zero [1, 9] = Inr (\<lparr>IsNode = False, IsGateway = True\<rparr>, [9]) \<and>
   count_true (Role_discriminants \<lparr>IsNode = False, IsGateway = True\<rparr>) = 1 \<and>
   DeletedState_Decode DeletedState_zero [1, 9]
     = Inr (\<lparr>IsCanceledByUser = False, IsOutOfFunds = True\<rparr>, [9]) \<and>
   count_true (DeletedState_discriminants \<lparr>IsCanceledByUser = False, IsOutOfFunds = True\<rparr>) = 1 \<and>
   ContractState_Decode ExampleScaleLib ContractState_zero [1, 2, 9]
     = Inr (\<lparr>IsCreated = False, IsDeleted = True, AsDeleted = DeletedState_zero,
             IsGracePeriod = False, AsGracePeriodBlockNumber = 0\<rparr>, [9]) \<and>
   count_true (ContractState_discriminants
      \<lparr>IsCreated = False, IsDeleted = True, AsDeleted = DeletedState_zero,
       IsGracePeriod = False, AsGracePeriodBlockNumber = 0\<rparr>) = 1 \<and>
   ContractType_Decode ExampleScaleLib ContractType_zero [2, 5, 0, 0, 0, 9]
     = Inr (\<lparr>IsNodeContract = False, NodeContract = NodeContract_zero,
             IsNameContract = False, NameContract = NameContract_zero,
             IsRentContract = True, RentContract = \<lparr>RentContract.Node = 5\<rparr>\<rparr>, [9]) \<and>
   count_true (ContractType_discriminants
      \<lparr>IsNodeContract = False, NodeContract = NodeContract_zero,
       IsNameContract = False, NameContract = NameContract_zero,
       IsRentContract = True, RentContract = \<lparr>RentContract.Node = 5\<rparr>\<rparr>) = 1 \<and>
   DeletedState_Decode DeletedState_zero [2, 9] = Inr (DeletedState_zero, [9]) \<and>
   count_true (DeletedState_discriminants DeletedState_zero) = 0"
proof -
  have simple:
    "NodeCertification_Decode NodeCertification_zero [1, 9]
       = Inr (\<lparr>IsDiy = False, IsCertified = True\<rparr>, [9])"
    "FarmCertification_Decode FarmCertification_zero [1, 9]
       = Inr (\<lparr>isNotCertified = False, isGold = True\<rparr>, [9])"
    "Role_Decode Role_zero [1, 9] = Inr (\<lparr>IsNode = False, IsGateway = True\<rparr>, [9])"
    "DeletedState_Decode DeletedState_zero [1, 9]
       = Inr (\<lparr>IsCanceledByUser = False, IsOutOfFunds = True\<rparr>, [9])"
    "DeletedState_Decode DeletedState_zero [2, 9] = Inr (DeletedState_zero, [9])"
    by (simp_all add: NodeCertification_Decode_def NodeCertification_zero_def
        FarmCertification_Decode_def FarmCertification_zero_def Role_Decode_def Role_zero_def
        DeletedState_Decode_def DeletedState_zero_def ReadOneByte_def)
  have cstate: "ContractState_Decode ExampleScaleLib ContractState_zero [1, 2, 9]
     = Inr (\<lparr>IsCreated = False, IsDeleted = True, AsDeleted = DeletedState_zero,
             IsGracePeriod = False, AsGracePeriodBlockNumber = 0\<rparr>, [9])"
    by (simp add: ContractState_Decode_def ContractState_zero_def DeletedState_Decode_def
        ReadOneByte_def)
  have ctype: "ContractType_Decode ExampleScaleLib ContractType_zero [2, 5, 0, 0, 0, 9]
     = Inr (\<lparr>IsNodeContract = False, NodeContract = NodeContract_zero,
             IsNameContract = False, NameContract = NameContract_zero,
             IsRentContract = True, RentContract = \<lparr>RentContract.Node = 5\<rparr>\<rparr>, [9])"
    by (simp add: ContractType_Decode_def ContractType_zero_def ReadOneByte_def
        ExampleScaleLib_def le_read_def le_word_def)
  show ?thesis
    using decode_sets_one_discriminant [where d = "[1, 9]" and d' = "[9]"
        and nc = "\<lparr>IsDiy = False, IsCertified = True\<rparr>"
        and fc = "\<lparr>isNotCertified = False, isGold = True\<rparr>"
        and ro = "\<lparr>IsNode = False, IsGateway = True\<rparr>"
        and ds = "\<lparr>IsCanceledByUser = False, IsOutOfFunds = True\<rparr>"]
      decode_sets_one_discriminant [where d = "[1, 2, 9]" and d' = "[9]" and L = ExampleScaleLib
        and cs = "\<lparr>IsCreated = False, IsDeleted = True, AsDeleted = DeletedState_zero,
             IsGracePeriod = False, AsGracePeriodBlockNumber = 0\<rparr>"]
      decode_sets_one_discriminant [where d = "[2, 5, 0, 0, 0, 9]" and d' = "[9]"
        and L = ExampleScaleLib
        and ct = "\<lparr>IsNodeContract = False, NodeContract = NodeContract_zero,
             IsNameContract = False, NameContract = NameContract_zero,
             IsRentContract = True, RentContract = \<lparr>RentContract.Node = 5\<rparr>\<rparr>"]
      decode_sets_one_discriminant [where d = "[2, 9]" and d' = "[9]" and ds = DeletedState_zero]
    by (simp add: simple cstate ctype)
qed

text \<open>
  The claim as it is written fails for DeletedState: the byte 2 decodes without an
  error and the value has no discriminant set.
\<close>

theorem decode_sets_one_discriminant_counterexample:
  "DeletedState_Decode DeletedState_zero [2] = Inr (DeletedState_zero, []) \<and>
   count_true (DeletedState_discriminants DeletedState_zero) = 0"
  by (simp add: DeletedState_Decode_def DeletedState_zero_def ReadOneByte_def
      DeletedState_discriminants_def count_true_def)

section \<open>Unknown discriminants\<close>

text \<open>
  C4. The discriminant bytes each decoder knows are 0 and 1 for NodeCertification,
  FarmCertification and Role, and 0, 1 and 2 for DeletedState, ContractState and
  ContractType. For any other first byte, whatever value is decoded into and whatever
  follows the byte, \<open>Decode\<close> returns the error of its \<open>default\<close> branch: it does not
  succeed with any alternative.
\<close>

theorem unknown_discriminant_fails:
  "(b \<notin> {0, 1} \<longrightarrow>
      NodeCertification_Decode nc (b # rest)
        = Inl (Errorf ''unknown NodeCertification value %d'' [b]) \<and>
      FarmCertification_Decode fc (b # rest)
        = Inl (Errorf ''unknown FarmCertification value'' []) \<and>
      Role_Decode ro (b # rest) = Inl (Errorf ''unknown CertificateType value'' [])) \<and>
   (b \<notin> {0, 1, 2} \<longrightarrow>
      DeletedState_Decode ds (b # rest) = Inl (Errorf ''unknown deleted state value'' []) \<and>
      ContractState_Decode L cs (b # rest) = Inl (Errorf ''unknown ContractState value'' []) \<and>
      ContractType_Decode L ct (b # rest) = Inl (Errorf ''unknown contract type value'' []))"
  by (simp add: NodeCertification_Decode_def FarmCertification_Decode_def Role_Decode_def
      DeletedState_Decode_def ContractState_Decode_def ContractType_Decode_def ReadOneByte_def)

theorem unknown_discriminant_fails_witness:
  "NodeCertification_Decode NodeCertification_zero [7, 0]
     = Inl (Errorf ''unknown NodeCertification value %d'' [7]) \<and>
   FarmCertification_Decode FarmCertification_zero [7, 0]
     = Inl (Errorf ''unknown FarmCertification value'' []) \<and>
   Role_Decode Role_zero [7, 0] = Inl (Errorf ''unknown CertificateType value'' []) \<and>
   DeletedState_Decode DeletedState_zero [7, 0]
     = Inl (Errorf ''unknown deleted state value'' []) \<and>
   ContractState_Decode ExampleScaleLib ContractState_zero [7, 0]
     = Inl (Errorf ''unknown ContractState value'' []) \<and>
   ContractType_Decode ExampleScaleLib ContractType_zero [7, 0]
     = Inl (Errorf ''unknown contract type value'' [])"
  using unknown_discriminant_fails [of 7 NodeCertification_zero "[0]" FarmCertification_zero
      Role_zero DeletedState_zero ExampleScaleLib ContractState_zero ContractType_zero]
  by simp

section \<open>Encoding a value with no discriminant\<close>

text \<open>
  C10. For each of the six variants, a value with no discriminant true is encoded
  without an error and without a byte: the encoder, whatever its state (a writer that
  would refuse the next byte included), is returned as it was.
\<close>

theorem encode_without_discriminant:
  "(count_true (NodeCertification_discriminants nc) = 0 \<longrightarrow>
      NodeCertification_Encode nc e = (None, e)) \<and>
   (count_true (FarmCertification_discriminants fc) = 0 \<longrightarrow>
      FarmCertification_Encode fc e = (None, e)) \<and>
   (count_true (Role_discriminants ro) = 0 \<longrightarrow> Role_Encode ro e = (None, e)) \<and>
   (count_true (DeletedState_discriminants ds) = 0 \<longrightarrow>
      DeletedState_Encode ds e = (None, e)) \<and>
   (count_true (ContractState_discriminants cs) = 0 \<longrightarrow>
      ContractState_Encode L cs e = (None, e)) \<and>
   (count_true (ContractType_discriminants ct) = 0 \<longrightarrow>
      ContractType_Encode L ct e = (None, e))"
  by (simp add: NodeCertification_discriminants_def FarmCertification_discriminants_def
      Role_discriminants_def DeletedState_discriminants_def ContractState_discriminants_def
      ContractType_discriminants_def count_true_0_2 count_true_0_3
      NodeCertification_Encode_def FarmCertification_Encode_def Role_Encode_def
      DeletedState_Encode_def ContractState_Encode_def ContractType_Encode_def)

theorem encode_without_discriminant_witness:
  "NodeCertification_Encode NodeCertification_zero \<lparr>written = [], room = Some 0\<rparr>
     = (None, \<lparr>written = [], room = Some 0\<rparr>) \<and>
   FarmCertification_Encode FarmCertification_zero \<lparr>written = [], room = Some 0\<rparr>
     = (None, \<lparr>written = [], room = Some 0\<rparr>) \<and>
   Role_Encode Role_zero \<lparr>written = [], room = Some 0\<rparr>
     = (None, \<lparr>written = [], room = Some 0\<rparr>) \<and>
   DeletedState_Encode DeletedState_zero \<lparr>written = [], room = Some 0\<rparr>
     = (None, \<lparr>written = [], room = Some 0\<rparr>) \<and>
   ContractState_Encode ExampleScaleLib ContractState_zero \<lparr>written = [], room = Some 0\<rparr>
     = (None, \<lparr>written = [], room = Some 0\<rparr>) \<and>
   ContractType_Encode ExampleScaleLib
      (ContractType_zero\<lparr>RentContract := \<lparr>RentContract.Node = 5\<rparr>\<rparr>)
      \<lparr>written = [], room = Some 0\<rparr>
     = (None, \<lparr>written = [], room = Some 0\<rparr>) \<and>
   NodeCertification_Encode \<lparr>IsDiy = True, IsCertified = False\<rparr> \<lparr>written = [], room = Some 0\<rparr>
     = (Some ShortWrite, \<lparr>written = [], room = Some 0\<rparr>)"
proof -
  have none:
    "count_true (NodeCertification_discriminants NodeCertification_zero) = 0"
    "count_true (FarmCertification_discriminants FarmCertification_zero) = 0"
    "count_true (Role_discriminants Role_zero) = 0"
    "count_true (DeletedState_discriminants DeletedState_zero) = 0"
    "count_true (ContractState_discriminants ContractState_zero) = 0"
    "count_true (ContractType_discriminants
       (ContractType_zero\<lparr>RentContract := \<lparr>RentContract.Node = 5\<rparr>\<rparr>)) = 0"
    by (simp_all add: count_true_def NodeCertification_discriminants_def
        FarmCertification_discriminants_def Role_discriminants_def
        DeletedState_discriminants_def ContractState_discriminants_def
        ContractType_discriminants_def NodeCertification_zero_def FarmCertification_zero_def
        Role_zero_def DeletedState_zero_def ContractState_zero_def ContractType_zero_def)
  have refused: "NodeCertification_Encode \<lparr>IsDiy = True, IsCertified = False\<rparr>
      \<lparr>written = [], room = Some 0\<rparr> = (Some ShortWrite, \<lparr>written = [], room = Some 0\<rparr>)"
    by (simp add: NodeCertification_Encode_def PushByte_def)
  show ?thesis
    using encode_without_discriminant [of NodeCertification_zero
        "\<lparr>written = [], room = Some 0\<rparr>" FarmCertification_zero Role_zero DeletedState_zero
        ContractState_zero ExampleScaleLib
        "ContractType_zero\<lparr>RentContract := \<lparr>RentContract.Node = 5\<rparr>\<rparr>"]
      none refused
    by simp
qed

section \<open>Reading records\<close>

text \<open>
  C5. For each of the four record kinds, when the raw storage read answers with no
  bytes the fetch returns \<open>ErrNotFound\<close> under the message of that kind, whatever the
  structural decoder is: it is neither a decode error nor a record. This holds for the
  exported operations, from the point where client, key part and key were obtained, and
  for the two internal readers \<open>getNode\<close> and \<open>getContract\<close>. The cause of the error
  under its message is \<open>ErrNotFound\<close>.
\<close>

theorem empty_buffer_is_not_found:
  assumes "GetStorageRawLatest cl key = Inr []"
  shows
  "(getClient s = Inr (cl, meta) \<and> EncodeToBytes_uint32 T n = Inr bytes \<and>
    CreateStorageKey T meta ''TfgridModule'' ''Entities'' [bytes, []] = Inr key \<longrightarrow>
      GetEntity T decodeEntity s n = Inl (Wrap ErrNotFound ''entity not found'')) \<and>
   (pool_Get s = Inr (cl, meta) \<and> EncodeToBytes_uint32 T n = Inr bytes \<and>
    CreateStorageKey T meta ''TfgridModule'' ''Nodes'' [bytes, []] = Inr key \<longrightarrow>
      GetNode T decodeNode s n = Inl (Wrap ErrNotFound ''node not found'')) \<and>
   (getClient s = Inr (cl, meta) \<and> EncodeToBytes_uint32 T n = Inr bytes \<and>
    CreateStorageKey T meta ''TfgridModule'' ''Farms'' [bytes, []] = Inr key \<longrightarrow>
      GetFarm T decodeFarm s n = Inl (Wrap ErrNotFound ''farm not found'')) \<and>
   (getClient s = Inr (cl, meta) \<and> EncodeToBytes_uint64 T c = Inr bytes \<and>
    CreateStorageKey T meta ''SmartContractModule'' ''Contracts'' [bytes, []] = Inr key \<longrightarrow>
      GetContract T decodeContract s c = Inl (Wrap ErrNotFound ''contract not found'')) \<and>
   getNode decodeNode cl key = Inl (Wrap ErrNotFound ''node not found'') \<and>
   getContract decodeContract cl key = Inl (Wrap ErrNotFound ''contract not found'') \<and>
   Cause (Wrap ErrNotFound msg) = ErrNotFound"
  using assms
  by (simp add: GetEntity_def GetNode_def GetFarm_def GetContract_def getNode_def
      getContract_def)

theorem empty_buffer_is_not_found_witness:
  "GetEntity ExampleTypesLib (\<lambda>raw. Inr raw) (ExampleSubstrate []) 3
     = Inl (Wrap ErrNotFound ''entity not found'') \<and>
   GetNode ExampleTypesLib (\<lambda>raw. Inr raw) (ExampleSubstrate []) 3
     = Inl (Wrap ErrNotFound ''node not found'') \<and>
   GetFarm ExampleTypesLib (\<lambda>raw. Inr raw) (ExampleSubstrate []) 3
     = Inl (Wrap ErrNotFound ''farm not found'') \<and>
   GetContract ExampleTypesLib (\<lambda>raw. Inr raw) (ExampleSubstrate []) 3
     = Inl (Wrap ErrNotFound ''contract not found'')"
proof -
  have read: "GetStorageRawLatest (ExampleConn []) key = Inr []" for key
    by (simp add: ExampleConn_def)
  have client: "getClient (ExampleSubstrate []) = Inr (ExampleConn [], ())"
    "pool_Get (ExampleSubstrate []) = Inr (ExampleConn [], ())"
    by (simp_all add: ExampleSubstrate_def)
  have part: "EncodeToBytes_uint32 ExampleTypesLib 3 = Inr (le_bytes 4 (3 :: U32))"
    "EncodeToBytes_uint64 ExampleTypesLib 3 = Inr (le_bytes 8 (3 :: U64))"
    by (simp_all add: ExampleTypesLib_def)
  have key: "CreateStorageKey ExampleTypesLib () m i args
      = Inr (map of_char m @ map of_char i @ concat args)" for m i args
    by (simp add: ExampleTypesLib_def)
  let ?key = "\<lambda>item. map of_char ''TfgridModule'' @ map of_char item
      @ concat [le_bytes 4 (3 :: U32), []] :: byte list"
  let ?ckey = "map of_char ''SmartContractModule'' @ map of_char ''Contracts''
      @ concat [le_bytes 8 (3 :: U64), []] :: byte list"
  show ?thesis
    using
      empty_buffer_is_not_found [OF read, where s = "ExampleSubstrate []" and meta = "()"
        and key = "?key ''Entities''"
        and T = ExampleTypesLib and n = 3 and bytes = "le_bytes 4 (3 :: U32)"
        and decodeEntity = "\<lambda>raw. Inr raw" and decodeNode = "\<lambda>raw. Inr raw"
        and decodeFarm = "\<lambda>raw. Inr raw" and decodeContract = "\<lambda>raw. Inr raw"]
      empty_buffer_is_not_found [OF read, where s = "ExampleSubstrate []" and meta = "()"
        and key = "?key ''Nodes''"
        and T = ExampleTypesLib and n = 3 and bytes = "le_bytes 4 (3 :: U32)"
        and decodeEntity = "\<lambda>raw. Inr raw" and decodeNode = "\<lambda>raw. Inr raw"
        and decodeFarm = "\<lambda>raw. Inr raw" and decodeContract = "\<lambda>raw. Inr raw"]
      empty_buffer_is_not_found [OF read, where s = "ExampleSubstrate []" and meta = "()"
        and key = "?key ''Farms''"
        and T = ExampleTypesLib and n = 3 and bytes = "le_bytes 4 (3 :: U32)"
        and decodeEntity = "\<lambda>raw. Inr raw" and decodeNode = "\<lambda>raw. Inr raw"
        and decodeFarm = "\<lambda>raw. Inr raw" and decodeContract = "\<lambda>raw. Inr raw"]
      empty_buffer_is_not_found [OF read, where s = "ExampleSubstrate []" and meta = "()"
        and key = ?ckey
        and T = ExampleTypesLib and c = 3 and bytes = "le_bytes 8 (3 :: U64)"
        and decodeEntity = "\<lambda>raw. Inr raw" and decodeNode = "\<lambda>raw. Inr raw"
        and decodeFarm = "\<lambda>raw. Inr raw" and decodeContract = "\<lambda>raw. Inr raw"]
    by (simp add: client part key)
qed

text \<open>
  C2. Entity accepts the version 1 only, Node the versions 0, 1 and 2, Farm the
  versions 1, 2 and 3. When the raw read answers with a nonempty buffer whose first byte
  is outside the set of the kind, the fetch returns \<open>ErrUnknownVersion\<close>, whatever the
  rest of the buffer is and whatever the structural decoder would make of it: the result
  does not depend on the decoder.
\<close>

theorem unknown_version_is_refused:
  assumes "GetStorageRawLatest cl key = Inr (version # rest)"
  shows
  "(getClient s = Inr (cl, meta) \<and> EncodeToBytes_uint32 T n = Inr bytes \<and>
    CreateStorageKey T meta ''TfgridModule'' ''Entities'' [bytes, []] = Inr key \<and>
    version \<notin> {1} \<longrightarrow>
      GetEntity T decodeEntity s n = Inl ErrUnknownVersion) \<and>
   (version \<notin> {0, 1, 2} \<longrightarrow> getNode decodeNode cl key = Inl ErrUnknownVersion) \<and>
   (pool_Get s = Inr (cl, meta) \<and> EncodeToBytes_uint32 T n = Inr bytes \<and>
    CreateStorageKey T meta ''TfgridModule'' ''Nodes'' [bytes, []] = Inr key \<and>
    version \<notin> {0, 1, 2} \<longrightarrow>
      GetNode T decodeNode s n = Inl ErrUnknownVersion) \<and>
   (getClient s = Inr (cl, meta) \<and> EncodeToBytes_uint32 T n = Inr bytes \<and>
    CreateStorageKey T meta ''TfgridModule'' ''Farms'' [bytes, []] = Inr key \<and>
    version \<notin> {1, 2, 3} \<longrightarrow>
      GetFarm T decodeFarm s n = Inl ErrUnknownVersion)"
  using assms
  by (simp add: GetEntity_def GetNode_def GetFarm_def getNode_def getVersion_def)

theorem unknown_version_is_refused_witness:
  "GetEntity ExampleTypesLib (\<lambda>raw. Inr raw) (ExampleSubstrate [2, 0, 0]) 3
     = Inl ErrUnknownVersion \<and>
   GetNode ExampleTypesLib (\<lambda>raw. Inr raw) (ExampleSubstrate [3, 0, 0]) 3
     = Inl ErrUnknownVersion \<and>
   GetFarm ExampleTypesLib (\<lambda>raw. Inr raw) (ExampleSubstrate [0, 0, 0]) 3
     = Inl ErrUnknownVersion \<and>
   GetEntity ExampleTypesLib (\<lambda>raw. Inr raw) (ExampleSubstrate [1, 0, 0]) 3
     = Inr [1, 0, 0]"
proof -
  have read: "GetStorageRawLatest (ExampleConn (v # r)) key = Inr (v # r)" for key v r
    by (simp add: ExampleConn_def)
  have client: "getClient (ExampleSubstrate raw) = Inr (ExampleConn raw, ())"
    "pool_Get (ExampleSubstrate raw) = Inr (ExampleConn raw, ())" for raw
    by (simp_all add: ExampleSubstrate_def)
  have part: "EncodeToBytes_uint32 ExampleTypesLib 3 = Inr (le_bytes 4 (3 :: U32))"
    by (simp add: ExampleTypesLib_def)
  have key: "CreateStorageKey ExampleTypesLib () m i args
      = Inr (map of_char m @ map of_char i @ concat args)" for m i args
    by (simp add: ExampleTypesLib_def)
  have accepted: "GetEntity ExampleTypesLib (\<lambda>raw. Inr raw) (ExampleSubstrate [1, 0, 0]) 3
     = Inr [1, 0, 0]"
    by (simp add: GetEntity_def client part key read getVersion_def)
  let ?key = "\<lambda>item. map of_char ''TfgridModule'' @ map of_char item
      @ concat [le_bytes 4 (3 :: U32), []] :: byte list"
  show ?thesis
    using
      unknown_version_is_refused [OF read, where s = "ExampleSubstrate [2, 0, 0]"
        and version = 2 and rest = "[0, 0]" and key = "?key ''Entities''"
        and meta = "()" and T = ExampleTypesLib and n = 3 and bytes = "le_bytes 4 (3 :: U32)"
        and decodeEntity = "\<lambda>raw. Inr raw" and decodeNode = "\<lambda>raw. Inr raw"
        and decodeFarm = "\<lambda>raw. Inr raw"]
      unknown_version_is_refused [OF read, where s = "ExampleSubstrate [3, 0, 0]"
        and version = 3 and rest = "[0, 0]" and key = "?key ''Nodes''"
        and meta = "()" and T = ExampleTypesLib and n = 3 and bytes = "le_bytes 4 (3 :: U32)"
        and decodeEntity = "\<lambda>raw. Inr raw" and decodeNode = "\<lambda>raw. Inr raw"
        and decodeFarm = "\<lambda>raw. Inr raw"]
      unknown_version_is_refused [OF read, where s = "ExampleSubstrate [0, 0, 0]"
        and version = 0 and rest = "[0, 0]" and key = "?key ''Farms''"
        and meta = "()" and T = ExampleTypesLib and n = 3 and bytes = "le_bytes 4 (3 :: U32)"
        and decodeEntity = "\<lambda>raw. Inr raw" and decodeNode = "\<lambda>raw. Inr raw"
        and decodeFarm = "\<lambda>raw. Inr raw"]
      accepted
    by (simp add: client part key)
qed

text \<open>
  C7. \<open>getContract\<close> has no version switch. For a nonempty buffer its result is the
  result of the structural decoder on the whole buffer, an error of the decoder wrapped
  with \<open>failed to load object\<close>: it is the same function of the buffer whatever the first
  byte is. It never returns \<open>ErrUnknownVersion\<close>, for any connection, key and decoder;
  and an error of its has that cause only if the decoder or the storage read returned an
  error with that cause.
\<close>

theorem contract_has_no_version_check:
  "(GetStorageRawLatest cl key = Inr raw \<and> raw \<noteq> [] \<longrightarrow>
      getContract decodeContract cl key =
        (case decodeContract raw of
           Inl err \<Rightarrow> Inl (Wrap err ''failed to load object'')
         | Inr contract \<Rightarrow> Inr contract)) \<and>
   getContract decodeContract cl key \<noteq> Inl ErrUnknownVersion \<and>
   (getContract decodeContract cl key = Inl e \<and> Cause e = ErrUnknownVersion \<longrightarrow>
      (\<exists>raw err. GetStorageRawLatest cl key = Inr raw \<and> decodeContract raw = Inl err \<and>
         Cause err = ErrUnknownVersion) \<or>
      (\<exists>err. GetStorageRawLatest cl key = Inl err \<and> Cause err = ErrUnknownVersion))"
  by (auto simp: getContract_def split: sum.splits)

theorem contract_has_no_version_check_witness:
  "getContract (\<lambda>raw. Inr raw) (ExampleConn [9, 0, 0]) [] = Inr [9, 0, 0] \<and>
   getNode (\<lambda>raw. Inr raw) (ExampleConn [9, 0, 0]) [] = Inl ErrUnknownVersion \<and>
   getContract (\<lambda>raw. Inl (External ''short'') :: error + byte list) (ExampleConn [9, 0, 0]) []
     = Inl (Wrap (External ''short'') ''failed to load object'')"
proof -
  have read: "GetStorageRawLatest (ExampleConn [9, 0, 0]) [] = Inr [9, 0, 0] \<and> [9, 0, 0 :: byte] \<noteq> []"
    by (simp add: ExampleConn_def)
  have node: "getNode (\<lambda>raw. Inr raw) (ExampleConn [9, 0, 0]) [] = Inl ErrUnknownVersion"
    by (simp add: getNode_def ExampleConn_def getVersion_def)
  show ?thesis
    using contract_has_no_version_check [of "ExampleConn [9, 0, 0]" "[]" "[9, 0, 0]"
        "\<lambda>raw. Inr raw"]
      contract_has_no_version_check [of "ExampleConn [9, 0, 0]" "[]" "[9, 0, 0]"
        "\<lambda>raw. Inl (External ''short'') :: error + byte list"]
      read node
    by simp
qed

section \<open>Derived-index lookups and the identifier 0\<close>

lemma GetNodeByTwinID_nonzero: "GetNodeByTwinID T s twin \<noteq> Inr 0"
  by (auto simp: GetNodeByTwinID_def split: sum.splits prod.splits if_splits)

lemma GetContractWithHash_nonzero: "GetContractWithHash T s node hash \<noteq> Inr 0"
  by (auto simp: GetContractWithHash_def split: sum.splits prod.splits if_splits)

lemma GetContractIDByNameRegistration_nonzero:
  "GetContractIDByNameRegistration T s name \<noteq> Inr 0"
  by (auto simp: GetContractIDByNameRegistration_def split: sum.splits prod.splits if_splits)

text \<open>
  C6. In each of the three lookups, once client, key parts and key were obtained: when
  the index has no bytes under the key (the key is absent), or has bytes that decode to
  the identifier 0, the lookup returns \<open>ErrNotFound\<close> under its message. In no case at
  all does a lookup return 0 as an identifier.
\<close>

theorem zero_identifier_is_not_found:
  "(pool_Get s = Inr (cl, meta) \<and> EncodeToBytes_uint32 T twin = Inr bytes \<and>
    CreateStorageKey T meta ''TfgridModule'' ''NodeIdByTwinID'' [bytes, []] = Inr key \<and>
    GetStorageRawLatest cl key = Inr raw \<and> (raw = [] \<or> DecodeFromBytes_U32 T raw = Inr 0) \<longrightarrow>
      GetNodeByTwinID T s twin = Inl (Wrap ErrNotFound ''node not found'')) \<and>
   (getClient s = Inr (cl, meta) \<and> EncodeToBytes_uint32 T node = Inr nodeBytes \<and>
    EncodeToBytes_string T hash = Inr hashBytes \<and>
    CreateStorageKey T meta ''SmartContractModule'' ''ContractIDByNodeIDAndHash''
      [nodeBytes, hashBytes, []] = Inr key \<and>
    GetStorageRawLatest cl key = Inr raw \<and> (raw = [] \<or> DecodeFromBytes_U64 T raw = Inr 0) \<longrightarrow>
      GetContractWithHash T s node hash = Inl (Wrap ErrNotFound ''contract not found'')) \<and>
   (getClient s = Inr (cl, meta) \<and> EncodeToBytes_string T name = Inr nameBytes \<and>
    CreateStorageKey T meta ''SmartContractModule'' ''ContractIDByNameRegistration''
      [nameBytes, []] = Inr key \<and>
    GetStorageRawLatest cl key = Inr raw \<and> (raw = [] \<or> DecodeFromBytes_U64 T raw = Inr 0) \<longrightarrow>
      GetContractIDByNameRegistration T s name = Inl (Wrap ErrNotFound ''contract not found'')) \<and>
   GetNodeByTwinID T s twin \<noteq> Inr 0 \<and>
   GetContractWithHash T s node hash \<noteq> Inr 0 \<and>
   GetContractIDByNameRegistration T s name \<noteq> Inr 0"
proof -
  have "GetNodeByTwinID T s twin = Inl (Wrap ErrNotFound ''node not found'')"
    if "pool_Get s = Inr (cl, meta)" "EncodeToBytes_uint32 T twin = Inr bytes"
      "CreateStorageKey T meta ''TfgridModule'' ''NodeIdByTwinID'' [bytes, []] = Inr key"
      "GetStorageRawLatest cl key = Inr raw" "raw = [] \<or> DecodeFromBytes_U32 T raw = Inr 0"
    using that by (auto simp: GetNodeByTwinID_def GetStorageLatest_def)
  moreover have "GetContractWithHash T s node hash = Inl (Wrap ErrNotFound ''contract not found'')"
    if "getClient s = Inr (cl, meta)" "EncodeToBytes_uint32 T node = Inr nodeBytes"
      "EncodeToBytes_string T hash = Inr hashBytes"
      "CreateStorageKey T meta ''SmartContractModule'' ''ContractIDByNodeIDAndHash''
         [nodeBytes, hashBytes, []] = Inr key"
      "GetStorageRawLatest cl key = Inr raw" "raw = [] \<or> DecodeFromBytes_U64 T raw = Inr 0"
    using that by (auto simp: GetContractWithHash_def GetStorageLatest_def)
  moreover have
    "GetContractIDByNameRegistration T s name = Inl (Wrap ErrNotFound ''contract not found'')"
    if "getClient s = Inr (cl, meta)" "EncodeToBytes_string T name = Inr nameBytes"
      "CreateStorageKey T meta ''SmartContractModule'' ''ContractIDByNameRegistration''
         [nameBytes, []] = Inr key"
      "GetStorageRawLatest cl key = Inr raw" "raw = [] \<or> DecodeFromBytes_U64 T raw = Inr 0"
    using that by (auto simp: GetContractIDByNameRegistration_def GetStorageLatest_def)
  ultimately show ?thesis
    using GetNodeByTwinID_nonzero [of T s twin] GetContractWithHash_nonzero [of T s node hash]
      GetContractIDByNameRegistration_nonzero [of T s name]
    by blast
qed

text \<open>
  The instance: an index without an entry and an index whose entry is four (eight) zero
  bytes both give not found; an entry 5 gives the identifier 5.
\<close>

theorem zero_identifier_is_not_found_witness:
  "GetNodeByTwinID ExampleTypesLib (ExampleSubstrate []) 7
     = Inl (Wrap ErrNotFound ''node not found'') \<and>
   GetNodeByTwinID ExampleTypesLib (ExampleSubstrate [0, 0, 0, 0]) 7
     = Inl (Wrap ErrNotFound ''node not found'') \<and>
   GetContractWithHash ExampleTypesLib (ExampleSubstrate []) 7 ''h''
     = Inl (Wrap ErrNotFound ''contract not found'') \<and>
   GetContractWithHash ExampleTypesLib (ExampleSubstrate [0, 0, 0, 0, 0, 0, 0, 0]) 7 ''h''
     = Inl (Wrap ErrNotFound ''contract not found'') \<and>
   GetContractIDByNameRegistration ExampleTypesLib (ExampleSubstrate []) ''n''
     = Inl (Wrap ErrNotFound ''contract not found'') \<and>
   GetContractIDByNameRegistration ExampleTypesLib (ExampleSubstrate [0, 0, 0, 0, 0, 0, 0, 0]) ''n''
     = Inl (Wrap ErrNotFound ''contract not found'') \<and>
   GetNodeByTwinID ExampleTypesLib (ExampleSubstrate [5, 0, 0, 0]) 7 = Inr 5"
proof -
  let ?z4 = "[0, 0, 0, 0] :: byte list"
  let ?z8 = "[0, 0, 0, 0, 0, 0, 0, 0] :: byte list"
  let ?nkey = "map of_char ''TfgridModule'' @ map of_char ''NodeIdByTwinID''
      @ concat [le_bytes 4 (7 :: U32), []] :: byte list"
  let ?hbytes = "of_nat (4 * length ''h'') # map of_char ''h'' :: byte list"
  let ?nbytes = "of_nat (4 * length ''n'') # map of_char ''n'' :: byte list"
  let ?hkey = "map of_char ''SmartContractModule'' @ map of_char ''ContractIDByNodeIDAndHash''
      @ concat [le_bytes 4 (7 :: U32), ?hbytes, []] :: byte list"
  let ?rkey = "map of_char ''SmartContractModule'' @ map of_char ''ContractIDByNameRegistration''
      @ concat [?nbytes, []] :: byte list"
  have read: "GetStorageRawLatest (ExampleConn raw) key = Inr raw" for key raw
    by (simp add: ExampleConn_def)
  have client: "getClient (ExampleSubstrate raw) = Inr (ExampleConn raw, ())"
    "pool_Get (ExampleSubstrate raw) = Inr (ExampleConn raw, ())" for raw
    by (simp_all add: ExampleSubstrate_def)
  have part: "EncodeToBytes_uint32 ExampleTypesLib 7 = Inr (le_bytes 4 (7 :: U32))"
    "EncodeToBytes_string ExampleTypesLib str = Inr (of_nat (4 * length str) # map of_char str)"
    for str
    by (simp_all add: ExampleTypesLib_def)
  have key: "CreateStorageKey ExampleTypesLib () m i args
      = Inr (map of_char m @ map of_char i @ concat args)" for m i args
    by (simp add: ExampleTypesLib_def)
  have zero: "DecodeFromBytes_U32 ExampleTypesLib ?z4 = Inr 0"
    "DecodeFromBytes_U64 ExampleTypesLib ?z8 = Inr 0"
    by (simp_all add: ExampleTypesLib_def le_read_def le_word_def)
  have five: "GetNodeByTwinID ExampleTypesLib (ExampleSubstrate [5, 0, 0, 0]) 7 = Inr 5"
    by (simp add: GetNodeByTwinID_def GetStorageLatest_def client part key read)
       (simp add: ExampleTypesLib_def le_read_def le_word_def)
  show ?thesis
    using
      zero_identifier_is_not_found [where T = ExampleTypesLib and s = "ExampleSubstrate []"
        and cl = "ExampleConn []" and meta = "()" and raw = "[]"
        and twin = 7 and bytes = "le_bytes 4 (7 :: U32)" and key = ?nkey]
      zero_identifier_is_not_found [where T = ExampleTypesLib and s = "ExampleSubstrate ?z4"
        and cl = "ExampleConn ?z4" and meta = "()" and raw = ?z4
        and twin = 7 and bytes = "le_bytes 4 (7 :: U32)" and key = ?nkey]
      zero_identifier_is_not_found [where T = ExampleTypesLib and s = "ExampleSubstrate []"
        and cl = "ExampleConn []" and meta = "()" and raw = "[]"
        and node = 7 and hash = "''h''" and nodeBytes = "le_bytes 4 (7 :: U32)"
        and hashBytes = ?hbytes and key = ?hkey]
      zero_identifier_is_not_found [where T = ExampleTypesLib and s = "ExampleSubstrate ?z8"
        and cl = "ExampleConn ?z8" and meta = "()" and raw = ?z8
        and node = 7 and hash = "''h''" and nodeBytes = "le_bytes 4 (7 :: U32)"
        and hashBytes = ?hbytes and key = ?hkey]
      zero_identifier_is_not_found [where T = ExampleTypesLib and s = "ExampleSubstrate []"
        and cl = "ExampleConn []" and meta = "()" and raw = "[]"
        and name = "''n''" and nameBytes = ?nbytes and key = ?rkey]
      zero_identifier_is_not_found [where T = ExampleTypesLib and s = "ExampleSubstrate ?z8"
        and cl = "ExampleConn ?z8" and meta = "()" and raw = ?z8
        and name = "''n''" and nameBytes = ?nbytes and key = ?rkey]
      five
    by (simp add: client part key read zero)
qed

section \<open>Identifiers after a submitted call\<close>

text \<open>
  C9. When the twin identifier of the node is not 0, the call was built and \<open>s.Call\<close>
  returned a block hash, \<open>CreateNode\<close> and \<open>UpdateNode\<close> return what
  \<open>GetNodeByTwinID\<close> finds for the twin identifier of the node they were given, read
  from the client as it is after the call. The block hash has no part in the result.
\<close>

theorem node_id_is_read_back_by_twin:
  "(pool_Get s = Inr (cl, meta) \<and> TwinID node \<noteq> 0 \<and>
    NewCall T meta ''TfgridModule.create_node''
      [ArgU32 (FarmID node), ArgResources (Resources node), ArgLocation (Location node),
       ArgString (Country node), ArgString (City node), ArgInterfaces (Interfaces node)]
      = Inr c \<and>
    Call M s cl meta identity c = (Inr hash, s') \<longrightarrow>
      CreateNode T M s identity node = (GetNodeByTwinID T s' (TwinID node), s')) \<and>
   (pool_Get s = Inr (cl, meta) \<and> TwinID node \<noteq> 0 \<and>
    NewCall T meta ''TfgridModule.update_node''
      [ArgU32 (ID node), ArgU32 (FarmID node), ArgResources (Resources node),
       ArgLocation (Location node), ArgString (Country node), ArgString (City node),
       ArgInterfaces (Interfaces node)]
      = Inr c \<and>
    Call M s cl meta identity c = (Inr hash, s') \<longrightarrow>
      UpdateNode T M s identity node = (GetNodeByTwinID T s' (TwinID node), s'))"
  by (simp add: CreateNode_def UpdateNode_def)

text \<open>
  The instance: the call is included in block \<open>[1]\<close>; afterwards the index holds 4 for
  the twin, and 4 is what both operations return.
\<close>

theorem node_id_is_read_back_by_twin_witness:
  "CreateNode ExampleTypesLib (ExampleMethods [4, 0, 0, 0]) (ExampleSubstrate [])
      \<lparr>PublicKey = []\<rparr> ExampleNode
     = (Inr 4, ExampleSubstrate [4, 0, 0, 0]) \<and>
   UpdateNode ExampleTypesLib (ExampleMethods [4, 0, 0, 0]) (ExampleSubstrate [])
      \<lparr>PublicKey = []\<rparr> ExampleNode
     = (Inr 4, ExampleSubstrate [4, 0, 0, 0])"
proof -
  have client: "pool_Get (ExampleSubstrate raw) = Inr (ExampleConn raw, ())" for raw
    by (simp add: ExampleSubstrate_def)
  have twin: "TwinID ExampleNode = 7"
    by (simp add: ExampleNode_def)
  have newcall: "NewCall ExampleTypesLib () name args = Inr (Extrinsic name args)" for name args
    by (simp add: ExampleTypesLib_def)
  have submit: "Call (ExampleMethods after) s cl () identity c = (Inr [1], ExampleSubstrate after)"
    for after s cl identity c
    by (simp add: ExampleMethods_def)
  have found: "GetNodeByTwinID ExampleTypesLib (ExampleSubstrate [4, 0, 0, 0]) 7 = Inr 4"
    by (simp add: GetNodeByTwinID_def GetStorageLatest_def client ExampleTypesLib_def
        ExampleConn_def le_read_def le_word_def)
  show ?thesis
    using
      node_id_is_read_back_by_twin [where T = ExampleTypesLib and M = "ExampleMethods [4, 0, 0, 0]"
        and s = "ExampleSubstrate []" and cl = "ExampleConn []" and meta = "()"
        and node = ExampleNode and identity = "\<lparr>PublicKey = []\<rparr>" and hash = "[1]"
        and s' = "ExampleSubstrate [4, 0, 0, 0]"
        and c = "Extrinsic ''TfgridModule.create_node''
          [ArgU32 (FarmID ExampleNode), ArgResources (Resources ExampleNode),
           ArgLocation (Location ExampleNode), ArgString (Country ExampleNode),
           ArgString (City ExampleNode), ArgInterfaces (Interfaces ExampleNode)]"]
      node_id_is_read_back_by_twin [where T = ExampleTypesLib and M = "ExampleMethods [4, 0, 0, 0]"
        and s = "ExampleSubstrate []" and cl = "ExampleConn []" and meta = "()"
        and node = ExampleNode and identity = "\<lparr>PublicKey = []\<rparr>" and hash = "[1]"
        and s' = "ExampleSubstrate [4, 0, 0, 0]"
        and c = "Extrinsic ''TfgridModule.update_node''
          [ArgU32 (ID ExampleNode), ArgU32 (FarmID ExampleNode),
           ArgResources (Resources ExampleNode), ArgLocation (Location ExampleNode),
           ArgString (Country ExampleNode), ArgString (City ExampleNode),
           ArgInterfaces (Interfaces ExampleNode)]"]
    by (simp add: client twin newcall submit found)
qed

text \<open>
  C8. When the client was obtained, the call was built, \<open>s.Call\<close> returned a block hash
  and \<open>s.checkForError\<close> found no error for the account, \<open>CreateRentContract\<close> returns
  the identifier 0 and no error. The two contract lookups, which serve the other two
  creations, never return 0 as an identifier.
\<close>

theorem rent_contract_id_is_zero:
  "(getClient s = Inr (cl, meta) \<and>
    NewCall T meta ''SmartContractModule.create_rent_contract'' [ArgU32 node] = Inr c \<and>
    Call M s cl meta identity c = (Inr blockHash, s') \<and>
    checkForError M cl meta blockHash (NewAccountID (PublicKey identity)) = None \<longrightarrow>
      CreateRentContract T M s identity node = (Inr 0, s')) \<and>
   GetContractWithHash T s' node hash \<noteq> Inr 0 \<and>
   GetContractIDByNameRegistration T s' name \<noteq> Inr 0"
  using GetContractWithHash_nonzero [of T s' node hash]
    GetContractIDByNameRegistration_nonzero [of T s' name]
  by (simp add: CreateRentContract_def)

theorem rent_contract_id_is_zero_witness:
  "CreateRentContract ExampleTypesLib (ExampleMethods [4, 0, 0, 0, 0, 0, 0, 0])
      (ExampleSubstrate []) \<lparr>PublicKey = []\<rparr> 5
     = (Inr 0, ExampleSubstrate [4, 0, 0, 0, 0, 0, 0, 0])"
proof -
  have client: "getClient (ExampleSubstrate []) = Inr (ExampleConn [], ())"
    by (simp add: ExampleSubstrate_def)
  have newcall: "NewCall ExampleTypesLib () name args = Inr (Extrinsic name args)" for name args
    by (simp add: ExampleTypesLib_def)
  have submit: "Call (ExampleMethods after) s cl () identity c = (Inr [1], ExampleSubstrate after)"
    for after s cl identity c
    by (simp add: ExampleMethods_def)
  have verified: "checkForError (ExampleMethods after) cl () blockHash account = None"
    for after cl blockHash account
    by (simp add: ExampleMethods_def)
  show ?thesis
    using rent_contract_id_is_zero [where T = ExampleTypesLib
        and M = "ExampleMethods [4, 0, 0, 0, 0, 0, 0, 0]" and s = "ExampleSubstrate []"
        and cl = "ExampleConn []" and meta = "()" and identity = "\<lparr>PublicKey = []\<rparr>"
        and node = 5 and blockHash = "[1]" and s' = "ExampleSubstrate [4, 0, 0, 0, 0, 0, 0, 0]"
        and c = "Extrinsic ''SmartContractModule.create_rent_contract'' [ArgU32 5]"]
    by (simp add: client newcall submit verified)
qed

end
